theory Spec2Isabelle
  imports Complex_Main "HOL-Library.Char_ord" "HOL-Library.List_Lexorder" "HOL-Library.Multiset"
begin

section \<open>The stock broadcaster of main.py\<close>

text \<open>
  The program polls a catalogue, compares the reported total with the one it stored,
  checks the serviceability of every product when the total changed, sends alerts for
  products that became deliverable and replaces its stored snapshot. Everything outside
  the program (the HTTP replies, \<open>json.loads\<close>, \<open>int\<close> on a string, the completion
  order of a thread pool) is a parameter of the model; every effect of the program (a
  write of the database file, an HTTP request, a Telegram message, a log line) is an
  event of a trace; every exception that the source can raise on the data it reads is a
  value.
\<close>

subsection \<open>JSON values and Python errors\<close>

text \<open>
  What \<open>json.loads\<close> returns. A finite float is the rational it denotes,
  \<open>JNonFinite\<close> stands for NaN and the two infinities; the items of a dict are a list
  of pairs with distinct keys.
\<close>

datatype jval =
    JNull
  | JBool bool
  | JInt int
  | JFloat rat
  | JNonFinite
  | JStr string
  | JList "jval list"
  | JObj "(string \<times> jval) list"

datatype py_error =
    AttributeError
  | TypeError
  | ValueError
  | RequestException
  | HTTPError
  | JSONDecodeError
  | PyException string

text \<open>Python's truth value of a JSON value (\<open>if det\<close>, \<open>a or b\<close>).\<close>

fun truthy :: "jval \<Rightarrow> bool" where
  "truthy JNull = False"
| "truthy (JBool b) = b"
| "truthy (JInt n) = (n \<noteq> 0)"
| "truthy (JFloat q) = (q \<noteq> 0)"
| "truthy JNonFinite = True"
| "truthy (JStr s) = (s \<noteq> [])"
| "truthy (JList xs) = (xs \<noteq> [])"
| "truthy (JObj kvs) = (kvs \<noteq> [])"

definition py_or :: "jval \<Rightarrow> jval \<Rightarrow> jval" where
  "py_or a b = (if truthy a then a else b)"

text \<open>\<open>d.get(k, dflt)\<close> on the items of a dict.\<close>

definition dict_get :: "(string \<times> jval) list \<Rightarrow> string \<Rightarrow> jval \<Rightarrow> jval" where
  "dict_get d k dflt = (case map_of d k of None \<Rightarrow> dflt | Some v \<Rightarrow> v)"

text \<open>
  \<open>j.get(k, dflt)\<close> and \<open>j.get(k)\<close> on a JSON value: only a dict has the method,
  any other value raises AttributeError; a missing key gives the default, None without
  one.
\<close>

fun jget_default :: "jval \<Rightarrow> string \<Rightarrow> jval \<Rightarrow> py_error + jval" where
  "jget_default (JObj kvs) k dflt = Inr (dict_get kvs k dflt)"
| "jget_default _ k dflt = Inl AttributeError"

definition jget :: "jval \<Rightarrow> string \<Rightarrow> py_error + jval" where
  "jget j k = jget_default j k JNull"

text \<open>
  \<open>int(v)\<close>: an int is itself, a bool is 0 or 1, a float is cut towards zero (NaN and
  the infinities raise), a string is read by \<open>int_of_str\<close>, which stands for Python's
  reading of an integer literal (None when it raises ValueError); None, a list and a dict
  raise TypeError.
\<close>

fun py_int :: "(string \<Rightarrow> int option) \<Rightarrow> jval \<Rightarrow> py_error + int" where
  "py_int int_of_str (JInt n) = Inr n"
| "py_int int_of_str (JBool b) = Inr (if b then 1 else 0)"
| "py_int int_of_str (JFloat q) = Inr (if 0 \<le> q then \<lfloor>q\<rfloor> else \<lceil>q\<rceil>)"
| "py_int int_of_str JNonFinite = Inl ValueError"
| "py_int int_of_str (JStr s) =
     (case int_of_str s of None \<Rightarrow> Inl ValueError | Some n \<Rightarrow> Inr n)"
| "py_int int_of_str _ = Inl TypeError"

text \<open>
  \<open>for x in v\<close>: a list gives its elements, a string its characters, a dict its keys;
  any other value raises TypeError.
\<close>

fun py_iter :: "jval \<Rightarrow> py_error + jval list" where
  "py_iter (JList xs) = Inr xs"
| "py_iter (JStr s) = Inr (map (\<lambda>c. JStr [c]) s)"
| "py_iter (JObj kvs) = Inr (map (\<lambda>kv. JStr (fst kv)) kvs)"
| "py_iter _ = Inl TypeError"

subsection \<open>Configuration\<close>

definition BASE_URL :: string where
  "BASE_URL = ''https://www.sheinindia.in''"

definition DEFAULT_PAGE_SIZE :: int where
  "DEFAULT_PAGE_SIZE = 40"

definition REAL_PIN :: string where
  "REAL_PIN = ''813210''"

subsection \<open>The database\<close>

text \<open>
  \<open>db_cache\<close> is the dict
  \<open>{"meta": {"last_total_results": n}, "prev_deliverable": [...]}\<close>.
\<close>

record db =
  last_total_results :: int
  prev_deliverable :: "string list"

definition db_get_last_total_results :: "db \<Rightarrow> int" where
  "db_get_last_total_results d = last_total_results d"

definition db_set_last_total_results :: "db \<Rightarrow> int \<Rightarrow> db" where
  "db_set_last_total_results d val = d\<lparr>last_total_results := val\<rparr>"

definition db_get_prev_deliverable_set :: "db \<Rightarrow> string set" where
  "db_get_prev_deliverable_set d = set (prev_deliverable d)"

text \<open>\<open>sorted(list(codes_set))\<close>: Python orders strings by code point, lexicographically.\<close>

definition db_replace_prev_deliverable_set :: "db \<Rightarrow> string set \<Rightarrow> db" where
  "db_replace_prev_deliverable_set d codes_set =
     d\<lparr>prev_deliverable := sorted_list_of_set codes_set\<rparr>"

subsection \<open>Products, serviceability results, events\<close>

text \<open>
  A product of the catalogue is a dict: \<open>code\<close> is \<open>prod.get("code")\<close>, a string, None
  when the key is missing; \<open>attrs\<close> are the other items of the dict, which the message
  builders read and which may hold any JSON value.
\<close>

record product =
  code :: "string option"
  attrs :: "(string \<times> jval) list"

text \<open>The dict that \<open>check_serviceability\<close> returns; \<open>JNull\<close> is Python's None.\<close>

record svc_info =
  deliverable :: jval
  codEligible :: jval

definition unknown_svc :: svc_info where
  "unknown_svc = \<lparr>deliverable = JNull, codEligible = JNull\<rparr>"

text \<open>
  The calls of \<open>log\<close> and \<open>log_exc\<close>, one constructor for each call site, with the
  arguments that the model has. The line that reports the elapsed time of a cycle is not
  modelled.
\<close>

datatype logline =
    LPoll int int nat
  | LMainPollLoopError
  | LWaveNewStock int int
  | LWaveUpdatedTotal
  | LWaveHeaderSent
  | LWaveWorkerCrashed
  | LAlert string
  | LAlertSkipUnknown string
  | LAlertSkipNotDeliverable string
  | LWaveSnapshot nat int
  | LNoWaveSame int
  | LNoWaveChanged int int
  | LNoWaveWorkerCrashed
  | LNoWaveSnapshot nat int
  | LSvcException
  | LSvcNon200 int string
  | LSvcParseFail
  | LPlpFetchFailed nat

text \<open>
  The effects. \<open>DbSave d\<close> is \<open>db_save\<close> writing \<open>d\<close> to the file;
  \<open>SendStockUpdate now prev\<close> is
  \<open>telegram_send_text(build_stock_update_caption(now, prev))\<close>;
  \<open>SendProductAlert prd svc\<close> is the alert built by \<open>build_product_alert(prod, svc)\<close>,
  sent as a photo when \<open>pick_main_image(prod)\<close> finds one and as text otherwise. The
  senders catch every exception of the request and return a flag, which is only logged.
\<close>

datatype event =
    DbSave db
  | HttpGetPlp nat
  | HttpGetSvc string string
  | SendStockUpdate int int
  | SendProductAlert product svc_info
  | Log logline

fun is_notification :: "event \<Rightarrow> bool" where
  "is_notification (SendStockUpdate n p) = True"
| "is_notification (SendProductAlert p s) = True"
| "is_notification _ = False"

fun is_stock_update :: "event \<Rightarrow> bool" where
  "is_stock_update (SendStockUpdate n p) = True"
| "is_stock_update _ = False"

fun is_db_save :: "event \<Rightarrow> bool" where
  "is_db_save (DbSave d) = True"
| "is_db_save _ = False"

text \<open>The identifiers of the products alerted in a trace, in order.\<close>

fun alert_ids :: "event list \<Rightarrow> string option list" where
  "alert_ids [] = []"
| "alert_ids (SendProductAlert p s # es) = code p # alert_ids es"
| "alert_ids (e # es) = alert_ids es"

subsection \<open>The message builders\<close>

text \<open>
  \<open>str.upper\<close> and \<open>str.startswith\<close> on ASCII text (a \<open>char\<close> is a byte).
\<close>

definition upper_char :: "char \<Rightarrow> char" where
  "upper_char c =
     (if 97 \<le> (of_char c :: nat) \<and> (of_char c :: nat) \<le> 122
      then char_of ((of_char c :: nat) - 32) else c)"

definition startswith :: "string \<Rightarrow> string \<Rightarrow> bool" where
  "startswith s pre = (take (length pre) s = pre)"

text \<open>
  \<open>str(im.get("imageType", "")).upper() == "PRIMARY"\<close>: the text of a value that is
  not a string (None, a number, a list, a dict) is never that word.
\<close>

fun is_primary :: "jval \<Rightarrow> bool" where
  "is_primary (JStr s) = (map upper_char s = ''PRIMARY'')"
| "is_primary _ = False"

text \<open>The first loop of \<open>pick_main_image\<close>: the url of the first primary image that has one.\<close>

fun first_primary_url :: "jval list \<Rightarrow> py_error + jval option" where
  "first_primary_url [] = Inr None"
| "first_primary_url (im # ims) =
     (case jget_default im ''imageType'' (JStr []) of
        Inl e \<Rightarrow> Inl e
      | Inr ty \<Rightarrow>
          if is_primary ty
          then (case jget im ''url'' of
                  Inl e \<Rightarrow> Inl e
                | Inr u \<Rightarrow> if truthy u then Inr (Some u) else first_primary_url ims)
          else first_primary_url ims)"

text \<open>Its last loop: the url of the first image that has one.\<close>

fun first_url :: "jval list \<Rightarrow> py_error + jval option" where
  "first_url [] = Inr None"
| "first_url (im # ims) =
     (case jget im ''url'' of
        Inl e \<Rightarrow> Inl e
      | Inr u \<Rightarrow> if truthy u then Inr (Some u) else first_url ims)"

definition pick_main_image :: "product \<Rightarrow> py_error + jval" where
  "pick_main_image prd =
     (case py_iter (dict_get (attrs prd) ''images'' (JList [])) of
        Inl e \<Rightarrow> Inl e
      | Inr imgs \<Rightarrow>
          (case first_primary_url imgs of
             Inl e \<Rightarrow> Inl e
           | Inr (Some u) \<Rightarrow> Inr u
           | Inr None \<Rightarrow>
               (let fallback = dict_get (attrs prd) ''fnlColorVariantData'' (JObj []) in
                case (if truthy fallback then jget fallback ''outfitPictureURL''
                      else Inr JNull) of
                  Inl e \<Rightarrow> Inl e
                | Inr pic \<Rightarrow>
                    if truthy fallback \<and> truthy pic then Inr pic
                    else (case first_url imgs of
                            Inl e \<Rightarrow> Inl e
                          | Inr (Some u) \<Rightarrow> Inr u
                          | Inr None \<Rightarrow> Inr JNull))))"

text \<open>
  The alert as \<open>build_product_alert\<close> composes it, before it is put into text and cut at
  1000 characters: the name, the price, the category, the url and the two lines for the
  serviceability result.
\<close>

datatype tri = Yes | No | Unknown

record alert =
  alert_name :: jval
  alert_price :: jval
  alert_category :: jval
  alert_url :: string
  alert_deliverable :: tri
  alert_cod :: tri

definition tri_of :: "jval \<Rightarrow> tri" where
  "tri_of v = (if v = JBool True then Yes else if v = JBool False then No else Unknown)"

definition build_product_alert :: "product \<Rightarrow> svc_info \<Rightarrow> py_error + alert" where
  "build_product_alert prd svc_info =
     (let name = dict_get (attrs prd) ''name'' (JStr ''N/A'');
          price_info = dict_get (attrs prd) ''price'' (JObj [])
      in case jget price_info ''displayformattedValue'' of
           Inl e \<Rightarrow> Inl e
         | Inr dv \<Rightarrow>
             (case (if truthy dv then Inr dv else jget price_info ''formattedValue'') of
                Inl e \<Rightarrow> Inl e
              | Inr fv \<Rightarrow>
                  (let mrp_val = py_or fv (JStr ''N/A'');
                       cat_txt =
                         py_or (dict_get (attrs prd) ''brickNameText'' JNull)
                           (py_or (dict_get (attrs prd) ''verticalNameText'' JNull)
                              (py_or (dict_get (attrs prd) ''segmentNameText'' JNull)
                                 (JStr [])));
                       prod_url_path = py_or (dict_get (attrs prd) ''url'' (JStr [])) (JStr [])
                   in case (if truthy prod_url_path
                            then (case prod_url_path of
                                    JStr s \<Rightarrow>
                                      Inr (if \<not> startswith s ''http'' then BASE_URL @ s else s)
                                  | _ \<Rightarrow> Inl AttributeError)
                            else Inr ''N/A'') of
                        Inl e \<Rightarrow> Inl e
                      | Inr product_url \<Rightarrow>
                          Inr \<lparr>alert_name = name, alert_price = mrp_val,
                               alert_category = cat_txt, alert_url = product_url,
                               alert_deliverable = tri_of (deliverable svc_info),
                               alert_cod = tri_of (codEligible svc_info)\<rparr>)))"

text \<open>
  \<open>prod.get('name','?')[:60]\<close> in the log line that follows the send: a string and a
  list can be sliced, any other value raises TypeError.
\<close>

definition alert_log_name :: "product \<Rightarrow> py_error + jval" where
  "alert_log_name prd =
     (case dict_get (attrs prd) ''name'' (JStr ''?'') of
        JStr s \<Rightarrow> Inr (JStr (take 60 s))
      | JList xs \<Rightarrow> Inr (JList (take 60 xs))
      | _ \<Rightarrow> Inl TypeError)"

text \<open>
  The lines of \<open>handle_wave\<close> that announce a product, none of them inside a \<open>try\<close>: the
  events they leave and the exception that ends them, if one does.
\<close>

definition announce :: "product \<Rightarrow> svc_info \<Rightarrow> string \<Rightarrow> event list \<times> py_error option" where
  "announce prd svc c =
     (case build_product_alert prd svc of
        Inl e \<Rightarrow> ([], Some e)
      | Inr alert_msg \<Rightarrow>
          (case pick_main_image prd of
             Inl e \<Rightarrow> ([], Some e)
           | Inr img \<Rightarrow>
               (case alert_log_name prd of
                  Inl e \<Rightarrow> ([SendProductAlert prd svc], Some e)
                | Inr nm \<Rightarrow> ([SendProductAlert prd svc, Log (LAlert c)], None))))"

subsection \<open>Parsing a response body\<close>

text \<open>
  \<open>str.strip\<close>, \<open>str.find\<close>, \<open>str.rfind\<close> and a slice, on ASCII text.
  \<open>json.loads\<close> is the parameter \<open>loads\<close>: None when it raises.
\<close>

definition isspace :: "char \<Rightarrow> bool" where
  "isspace c = (of_char c \<in> {9, 10, 11, 12, 13, 28, 29, 30, 31, 32 :: nat})"

definition strip :: "string \<Rightarrow> string" where
  "strip s = rev (dropWhile isspace (rev (dropWhile isspace s)))"

definition find_char :: "char \<Rightarrow> string \<Rightarrow> nat option" where
  "find_char c s = (if c \<in> set s then Some (length (takeWhile (\<lambda>x. x \<noteq> c) s)) else None)"

definition rfind_char :: "char \<Rightarrow> string \<Rightarrow> nat option" where
  "rfind_char c s =
     (if c \<in> set s then Some (length s - 1 - length (takeWhile (\<lambda>x. x \<noteq> c) (rev s)))
      else None)"

definition slice :: "nat \<Rightarrow> nat \<Rightarrow> string \<Rightarrow> string" where
  "slice i j s = take (j - i) (drop i s)"

definition parse_json_from_response_text ::
  "(string \<Rightarrow> jval option) \<Rightarrow> string \<Rightarrow> jval option" where
  "parse_json_from_response_text loads txt0 =
     (let txt = strip txt0 in
      case loads txt of
        Some j \<Rightarrow> Some j
      | None \<Rightarrow>
          (case (find_char CHR ''{'' txt, rfind_char CHR ''}'' txt) of
             (Some si, Some ei) \<Rightarrow> loads (slice si (ei + 1) txt)
           | _ \<Rightarrow> None))"

subsection \<open>The serviceability check\<close>

text \<open>
  The reply to \<open>sess.get\<close>: the call raises, or returns a response with its status, the
  result of \<open>r.json()\<close> (None when it raises) and its text.
\<close>

record response =
  status_code :: int
  json_body :: "jval option"
  text_body :: string

datatype http_reply = ConnError | Reply response

text \<open>The body as the check reads it: \<open>r.json()\<close>, and the text parser when that raises.\<close>

definition parsed_body :: "(string \<Rightarrow> jval option) \<Rightarrow> response \<Rightarrow> jval option" where
  "parsed_body loads r =
     (case json_body r of
        Some j \<Rightarrow> Some j
      | None \<Rightarrow> parse_json_from_response_text loads (text_body r))"

text \<open>
  The last lines of \<open>check_serviceability\<close>. \<open>first_detail\<close> is \<open>det\<close>, given
  \<open>j.get("productDetails")\<close>: its first element when it is a list that is not empty,
  None otherwise.
\<close>

definition first_detail :: "jval \<Rightarrow> jval" where
  "first_detail pd = (case pd of JList (d # ds) \<Rightarrow> d | _ \<Rightarrow> JNull)"

definition svc_fields :: "jval \<Rightarrow> py_error + svc_info" where
  "svc_fields j =
     (case jget j ''productDetails'' of
        Inl e \<Rightarrow> Inl e
      | Inr pd \<Rightarrow>
          (let det = first_detail pd;
               src = (if truthy det then det else j)
           in case jget src ''servicability'' of
                Inl e \<Rightarrow> Inl e
              | Inr dv \<Rightarrow>
                  (case jget src ''codEligible'' of
                     Inl e \<Rightarrow> Inl e
                   | Inr cv \<Rightarrow> Inr \<lparr>deliverable = dv, codEligible = cv\<rparr>)))"

text \<open>
  The bodies that these lines read without raising: a dict whose \<open>det\<close> is false in
  Python's sense (None, an empty dict) or a dict. On every other body \<open>.get\<close> raises,
  and nothing in \<open>check_serviceability\<close> catches it.
\<close>

definition reads_as_object :: "jval \<Rightarrow> bool" where
  "reads_as_object j =
     (case j of
        JObj kvs \<Rightarrow>
          (let det = first_detail (dict_get kvs ''productDetails'' JNull)
           in if truthy det then (case det of JObj kvs' \<Rightarrow> True | _ \<Rightarrow> False) else True)
      | _ \<Rightarrow> False)"

text \<open>
  The check returns the events of its thread and either the result or the exception
  that leaves it.
\<close>

definition check_serviceability ::
  "(string \<Rightarrow> jval option) \<Rightarrow> http_reply \<Rightarrow> string option \<Rightarrow> string
     \<Rightarrow> event list \<times> (py_error + svc_info)" where
  "check_serviceability loads reply product_code pincode =
     (case product_code of
        None \<Rightarrow> ([], Inr unknown_svc)
      | Some c \<Rightarrow>
          if c = [] then ([], Inr unknown_svc)
          else
            (case reply of
               ConnError \<Rightarrow> ([HttpGetSvc c pincode, Log LSvcException], Inr unknown_svc)
             | Reply r \<Rightarrow>
                 if status_code r \<noteq> 200
                 then ([HttpGetSvc c pincode, Log (LSvcNon200 (status_code r) c)],
                       Inr unknown_svc)
                 else
                   (case parsed_body loads r of
                      None \<Rightarrow> ([HttpGetSvc c pincode, Log LSvcParseFail], Inr unknown_svc)
                    | Some j \<Rightarrow> ([HttpGetSvc c pincode], svc_fields j))))"

subsection \<open>Thread pools\<close>

text \<open>
  \<open>as_completed(futs)\<close> yields every future once, in the order in which they complete:
  \<open>order\<close> lists the positions of the futures in that order.
\<close>

definition valid_order :: "nat \<Rightarrow> nat list \<Rightarrow> bool" where
  "valid_order n order = (sort order = [0..<n])"

definition as_completed :: "nat list \<Rightarrow> 'b list \<Rightarrow> 'b list" where
  "as_completed order futs = map (\<lambda>i. futs ! i) order"

subsection \<open>Fetching the catalogue\<close>

text \<open>
  The reply to a page request: the call raises, or returns a status and a body. The body
  is what \<open>parse_json_from_response_text\<close> and the two \<open>data.get\<close> calls make of it:
  None when they raise; otherwise the products and \<open>pagination\<close>, the value of
  \<open>data.get("pagination", {}) or {}\<close>, which may be any JSON value that is true in
  Python's sense, or the empty dict.
\<close>

record page_data =
  products :: "product list"
  pagination :: jval

datatype plp_reply = PlpConnError | PlpReply int "page_data option"

text \<open>\<open>raise_for_status\<close> raises for the statuses from 400 to 599 and for no other.\<close>

definition plp_fetch_page ::
  "(nat \<Rightarrow> plp_reply) \<Rightarrow> nat \<Rightarrow> event list \<times> (py_error + page_data)" where
  "plp_fetch_page plp page =
     (case plp page of
        PlpConnError \<Rightarrow> ([HttpGetPlp page], Inl RequestException)
      | PlpReply status body \<Rightarrow>
          if status = 403 then ([HttpGetPlp page], Inl (PyException ''403 on PLP''))
          else if 400 \<le> status \<and> status < 600 then ([HttpGetPlp page], Inl HTTPError)
          else
            (case body of
               None \<Rightarrow> ([HttpGetPlp page], Inl JSONDecodeError)
             | Some d \<Rightarrow> ([HttpGetPlp page], Inr d)))"

definition page_worker ::
  "(nat \<Rightarrow> plp_reply) \<Rightarrow> nat \<Rightarrow> event list \<times> product list" where
  "page_worker plp pg =
     (case plp_fetch_page plp pg of
        (w, Inl e) \<Rightarrow> (w @ [Log (LPlpFetchFailed pg)], [])
      | (w, Inr d) \<Rightarrow> (w, products d))"

definition last_page_index :: "int \<Rightarrow> int \<Rightarrow> int" where
  "last_page_index total_results_now total_pages_value =
     (if total_pages_value \<le> 0
      then max ((total_results_now - 1) div DEFAULT_PAGE_SIZE) 0
      else total_pages_value)"

text \<open>
  The two totals that \<open>fetch_all_products\<close> reads from the first page,
  \<open>int(pagination0.get("totalResults", len(products0)))\<close> and
  \<open>int(pagination0.get("totalPages", 0))\<close>, in this order: either can raise.
\<close>

definition read_totals ::
  "(string \<Rightarrow> int option) \<Rightarrow> page_data \<Rightarrow> py_error + int \<times> int" where
  "read_totals int_of_str d0 =
     (case jget_default (pagination d0) ''totalResults'' (JInt (int (length (products d0)))) of
        Inl e \<Rightarrow> Inl e
      | Inr tr \<Rightarrow>
          (case py_int int_of_str tr of
             Inl e \<Rightarrow> Inl e
           | Inr total_results_now \<Rightarrow>
               (case jget_default (pagination d0) ''totalPages'' (JInt 0) of
                  Inl e \<Rightarrow> Inl e
                | Inr tp \<Rightarrow>
                    (case py_int int_of_str tp of
                       Inl e \<Rightarrow> Inl e
                     | Inr total_pages_value \<Rightarrow>
                         Inr (total_results_now, total_pages_value)))))"

text \<open>The pages that remain after the first: \<open>range(1, last_page_index + 1)\<close>.\<close>

definition remaining_pages :: "int \<Rightarrow> int \<Rightarrow> nat list" where
  "remaining_pages total_results_now total_pages_value =
     [1..<nat (last_page_index total_results_now total_pages_value) + 1]"

text \<open>
  The result: the events of the main thread, the events of each page worker, and the
  products with the total, or the exception that leaves the function.
\<close>

definition fetch_all_products ::
  "(string \<Rightarrow> int option) \<Rightarrow> (nat \<Rightarrow> plp_reply) \<Rightarrow> nat list
     \<Rightarrow> event list \<times> event list list \<times> (py_error + product list \<times> int)" where
  "fetch_all_products int_of_str plp order =
     (case plp_fetch_page plp 0 of
        (w0, Inl e) \<Rightarrow> (w0, [], Inl e)
      | (w0, Inr d0) \<Rightarrow>
          (case read_totals int_of_str d0 of
             Inl e \<Rightarrow> (w0, [], Inl e)
           | Inr (total_results_now, total_pages_value) \<Rightarrow>
               (let products0 = products d0;
                    futs = map (page_worker plp)
                             (remaining_pages total_results_now total_pages_value);
                    all_products = products0 @ concat (as_completed order (map snd futs))
                in (w0, map fst futs, Inr (all_products, total_results_now)))))"

subsection \<open>One cycle\<close>

text \<open>
  What a cycle leaves: the database, the events of the main thread in order, the events
  of every page worker and of every serviceability worker, the results of the
  serviceability checks that were run (in the order of submission), and the exception
  that ended the cycle, if one did.
\<close>

record outcome =
  db_cache :: db
  trace :: "event list"
  page_workers :: "event list list"
  svc_workers :: "event list list"
  checks :: "(py_error + product \<times> string option \<times> svc_info) list"
  failure :: "py_error option"

definition svc_worker ::
  "(string \<Rightarrow> jval option) \<Rightarrow> http_reply \<Rightarrow> product
     \<Rightarrow> event list \<times> (py_error + product \<times> string option \<times> svc_info)" where
  "svc_worker loads reply prd =
     (case check_serviceability loads reply (code prd) REAL_PIN of
        (w, Inl e) \<Rightarrow> (w, Inl e)
      | (w, Inr s) \<Rightarrow> (w, Inr (prd, code prd, s)))"

text \<open>The futures of a fan-out: the product at position \<open>i\<close> gets the reply \<open>svc i\<close>.\<close>

definition submit_all ::
  "(string \<Rightarrow> jval option) \<Rightarrow> (nat \<Rightarrow> http_reply) \<Rightarrow> product list
     \<Rightarrow> (event list \<times> (py_error + product \<times> string option \<times> svc_info)) list" where
  "submit_all loads svc prods =
     map (\<lambda>(i, p). svc_worker loads (svc i) p) (enumerate 0 prods)"

text \<open>
  The body of the loop of \<open>handle_wave\<close> over the completed futures; the state is
  \<open>current_deliverable_set\<close>, \<open>session_announced\<close> and the events so far. Only
  \<open>fut.result()\<close> is inside the \<open>try\<close>: an exception of the lines that announce a
  product leaves the loop, and the step returns it with the state at that point.
\<close>

fun wave_step ::
  "string set \<Rightarrow> string set \<times> string set \<times> event list
     \<Rightarrow> (py_error + product \<times> string option \<times> svc_info)
     \<Rightarrow> (string set \<times> string set \<times> event list) \<times> py_error option" where
  "wave_step prev_deliverable_set (current_deliverable_set, session_announced, tr) (Inl e) =
     ((current_deliverable_set, session_announced, tr @ [Log LWaveWorkerCrashed]), None)"
| "wave_step prev_deliverable_set (current_deliverable_set, session_announced, tr)
       (Inr (prd, None, svc)) =
     ((current_deliverable_set, session_announced, tr), None)"
| "wave_step prev_deliverable_set (current_deliverable_set, session_announced, tr)
       (Inr (prd, Some c, svc)) =
     (if c = [] then ((current_deliverable_set, session_announced, tr), None)
      else if deliverable svc = JBool True then
        (if c \<notin> prev_deliverable_set \<and> c \<notin> session_announced
         then (case announce prd svc c of
                 (evs, Some e) \<Rightarrow>
                   ((insert c current_deliverable_set, session_announced, tr @ evs), Some e)
               | (evs, None) \<Rightarrow>
                   ((insert c current_deliverable_set, insert c session_announced, tr @ evs),
                    None))
         else ((insert c current_deliverable_set, session_announced, tr), None))
      else if deliverable svc = JNull
      then ((current_deliverable_set, session_announced, tr @ [Log (LAlertSkipUnknown c)]),
            None)
      else ((current_deliverable_set, session_announced,
             tr @ [Log (LAlertSkipNotDeliverable c)]), None))"

text \<open>The loop: it ends with the futures, or with the first exception of a step.\<close>

fun wave_loop ::
  "string set \<Rightarrow> string set \<times> string set \<times> event list
     \<Rightarrow> (py_error + product \<times> string option \<times> svc_info) list
     \<Rightarrow> (string set \<times> string set \<times> event list) \<times> py_error option" where
  "wave_loop prev_deliverable_set st [] = (st, None)"
| "wave_loop prev_deliverable_set st (fut # futs) =
     (case wave_step prev_deliverable_set st fut of
        (st', Some e) \<Rightarrow> (st', Some e)
      | (st', None) \<Rightarrow> wave_loop prev_deliverable_set st' futs)"

text \<open>
  \<open>handle_wave\<close>. When the loop raises, the pool still waits for its workers, the
  exception leaves the function before step 4, and the cache keeps the new total with the
  old list.
\<close>

definition handle_wave ::
  "(string \<Rightarrow> jval option) \<Rightarrow> (nat \<Rightarrow> http_reply) \<Rightarrow> nat list \<Rightarrow> db
     \<Rightarrow> product list \<Rightarrow> int \<Rightarrow> int \<Rightarrow> outcome" where
  "handle_wave loads svc order cache prods total_results_now prev_total_results =
     (let db1 = db_set_last_total_results cache total_results_now;
          tr1 = [DbSave db1,
                 Log (LWaveNewStock prev_total_results total_results_now),
                 Log LWaveUpdatedTotal,
                 SendStockUpdate total_results_now prev_total_results,
                 Log LWaveHeaderSent];
          prev_deliverable_set = db_get_prev_deliverable_set db1;
          futs = submit_all loads svc prods
      in case wave_loop prev_deliverable_set ({}, {}, [])
                (as_completed order (map snd futs)) of
           ((current_deliverable_set, session_announced, tr2), Some e) \<Rightarrow>
             \<lparr>db_cache = db1, trace = tr1 @ tr2, page_workers = [],
              svc_workers = map fst futs, checks = map snd futs, failure = Some e\<rparr>
         | ((current_deliverable_set, session_announced, tr2), None) \<Rightarrow>
             (let db2 = db_replace_prev_deliverable_set db1 current_deliverable_set
              in \<lparr>db_cache = db2,
                  trace = tr1 @ tr2 @
                    [DbSave db2,
                     Log (LWaveSnapshot (card current_deliverable_set) total_results_now)],
                  page_workers = [],
                  svc_workers = map fst futs,
                  checks = map snd futs,
                  failure = None\<rparr>))"

text \<open>The body of the loop of \<open>handle_no_wave\<close>; its worker returns the code and the result.\<close>

fun no_wave_step ::
  "string set \<times> event list
     \<Rightarrow> (py_error + product \<times> string option \<times> svc_info)
     \<Rightarrow> string set \<times> event list" where
  "no_wave_step (current_deliverable_set, tr) (Inl e) =
     (current_deliverable_set, tr @ [Log LNoWaveWorkerCrashed])"
| "no_wave_step (current_deliverable_set, tr) (Inr (prd, None, svc)) =
     (current_deliverable_set, tr)"
| "no_wave_step (current_deliverable_set, tr) (Inr (prd, Some c, svc)) =
     (if c \<noteq> [] \<and> deliverable svc = JBool True
      then (insert c current_deliverable_set, tr)
      else (current_deliverable_set, tr))"

definition handle_no_wave ::
  "(string \<Rightarrow> jval option) \<Rightarrow> (nat \<Rightarrow> http_reply) \<Rightarrow> nat list \<Rightarrow> db
     \<Rightarrow> product list \<Rightarrow> int \<Rightarrow> outcome" where
  "handle_no_wave loads svc order cache prods total_results_now =
     (let prev_total = db_get_last_total_results cache in
      if total_results_now = prev_total
      then \<lparr>db_cache = cache, trace = [Log (LNoWaveSame total_results_now)],
            page_workers = [], svc_workers = [], checks = [], failure = None\<rparr>
      else
        (let futs = submit_all loads svc prods;
             (current_deliverable_set, tr2) =
               foldl no_wave_step ({}, []) (as_completed order (map snd futs));
             db2 = db_set_last_total_results
                     (db_replace_prev_deliverable_set cache current_deliverable_set)
                     total_results_now
         in \<lparr>db_cache = db2,
             trace = [Log (LNoWaveChanged prev_total total_results_now)] @ tr2 @
               [DbSave db2,
                Log (LNoWaveSnapshot (card current_deliverable_set) total_results_now)],
             page_workers = [],
             svc_workers = map fst futs,
             checks = map snd futs,
             failure = None\<rparr>))"

text \<open>
  What a cycle meets outside the program: \<open>int\<close> on a string, \<open>json.loads\<close>, the reply
  to each page request, the completion order of the page workers, the reply to the check
  of the product at each position, and the completion order of the serviceability
  workers.
\<close>

record env =
  env_int :: "string \<Rightarrow> int option"
  env_loads :: "string \<Rightarrow> jval option"
  env_plp :: "nat \<Rightarrow> plp_reply"
  env_page_order :: "nat list"
  env_svc :: "nat \<Rightarrow> http_reply"
  env_svc_order :: "nat list"

text \<open>The fetch of a cycle.\<close>

definition fetch ::
  "env \<Rightarrow> event list \<times> event list list \<times> (py_error + product list \<times> int)" where
  "fetch env = fetch_all_products (env_int env) (env_plp env) (env_page_order env)"

text \<open>
  One pass through the body of \<open>while True\<close> in \<open>stock_poll_loop\<close>: an exception of
  the fetch or of a handler is caught and logged, and the cycle ends.
\<close>

definition poll_cycle :: "env \<Rightarrow> db \<Rightarrow> outcome" where
  "poll_cycle env cache =
     (case fetch env of
        (w0, pw, Inl e) \<Rightarrow>
          \<lparr>db_cache = cache, trace = w0 @ [Log LMainPollLoopError],
           page_workers = pw, svc_workers = [], checks = [], failure = Some e\<rparr>
      | (w0, pw, Inr (prods, total_results_now)) \<Rightarrow>
          (let prev_total_results = db_get_last_total_results cache;
               tr0 = w0 @ [Log (LPoll total_results_now prev_total_results (length prods))];
               r = (if total_results_now > prev_total_results
                    then handle_wave (env_loads env) (env_svc env) (env_svc_order env) cache prods
                           total_results_now prev_total_results
                    else handle_no_wave (env_loads env) (env_svc env) (env_svc_order env) cache prods
                           total_results_now)
           in r\<lparr>trace := tr0 @ trace r @
                   (case failure r of None \<Rightarrow> [] | Some e \<Rightarrow> [Log LMainPollLoopError]),
                page_workers := pw\<rparr>))"

text \<open>The loop, for as many cycles as there are environments.\<close>

fun stock_poll_loop :: "env list \<Rightarrow> db \<Rightarrow> outcome list" where
  "stock_poll_loop [] cache = []"
| "stock_poll_loop (env # envs) cache =
     (let r = poll_cycle env cache in r # stock_poll_loop envs (db_cache r))"

text \<open>The identifiers that the checks of a cycle resolved as deliverable.\<close>

fun resolved_true :: "(py_error + product \<times> string option \<times> svc_info) \<Rightarrow> string list" where
  "resolved_true (Inr (prd, Some c, s)) = (if deliverable s = JBool True then [c] else [])"
| "resolved_true _ = []"

definition resolved_available ::
  "(py_error + product \<times> string option \<times> svc_info) list \<Rightarrow> string set" where
  "resolved_available results = set (concat (map resolved_true results))"

subsection \<open>Schedules and invariants\<close>

text \<open>
  The completion orders of a cycle are orders of the futures that the cycle submits: of
  the page workers, and of the serviceability workers when the fetch succeeds.
\<close>

definition well_scheduled :: "env \<Rightarrow> bool" where
  "well_scheduled env =
     (case plp_fetch_page (env_plp env) 0 of
        (w, Inl e) \<Rightarrow> True
      | (w, Inr d0) \<Rightarrow>
          (case read_totals (env_int env) d0 of
             Inl e \<Rightarrow> True
           | Inr (n, tp) \<Rightarrow>
               valid_order (length (remaining_pages n tp)) (env_page_order env) \<and>
               (case fetch env of
                  (w0, pw, Inl e) \<Rightarrow> True
                | (w0, pw, Inr (prods, t)) \<Rightarrow>
                    valid_order (length prods) (env_svc_order env))))"

text \<open>A result as a worker returns it: the code is the code of its product.\<close>

fun from_worker :: "(py_error + product \<times> string option \<times> svc_info) \<Rightarrow> bool" where
  "from_worker (Inl e) = True"
| "from_worker (Inr (p, c, s)) = (code p = c)"

text \<open>
  The invariant of the loop of \<open>handle_wave\<close>, for the set \<open>S\<close> of the identifiers that
  the checks resolved deliverable: the alerts sent so far are the identifiers announced,
  each once, and these are the identifiers collected that the previous snapshot did not
  have; the loop sends no stock update and saves nothing.
\<close>

definition wave_inv ::
  "string set \<Rightarrow> string set \<Rightarrow> string set \<times> string set \<times> event list \<Rightarrow> bool" where
  "wave_inv S prev st =
     (case st of (cur, ann, tr) \<Rightarrow>
        distinct (alert_ids tr) \<and> set (alert_ids tr) = Some ` ann \<and> ann = cur - prev
        \<and> cur \<subseteq> S
        \<and> filter is_stock_update tr = [] \<and> filter is_db_save tr = [])"

text \<open>What holds of the events of the loop however it ends.\<close>

definition wave_post :: "string set \<Rightarrow> string set \<Rightarrow> event list \<Rightarrow> bool" where
  "wave_post S prev tr =
     (distinct (alert_ids tr) \<and> set (alert_ids tr) \<subseteq> Some ` (S - prev)
      \<and> filter is_stock_update tr = [] \<and> filter is_db_save tr = [])"

subsection \<open>Example cycles\<close>

text \<open>
  Replies of the serviceability endpoint, a \<open>json.loads\<close> that accepts nothing and an
  \<open>int\<close> that reads no string.
\<close>

definition no_loads :: "string \<Rightarrow> jval option" where
  "no_loads s = None"

definition no_int :: "string \<Rightarrow> int option" where
  "no_int s = None"

definition reply_json :: "jval \<Rightarrow> http_reply" where
  "reply_json j = Reply \<lparr>status_code = 200, json_body = Some j, text_body = []\<rparr>"

definition reply_status :: "int \<Rightarrow> http_reply" where
  "reply_status n = Reply \<lparr>status_code = n, json_body = None, text_body = []\<rparr>"

definition item :: "string \<Rightarrow> product" where
  "item c = \<lparr>code = Some c, attrs = [(''name'', JStr c)]\<rparr>"

text \<open>A product whose price is null: \<open>build_product_alert\<close> raises on it.\<close>

definition null_price_item :: "string \<Rightarrow> product" where
  "null_price_item c = \<lparr>code = Some c, attrs = [(''name'', JStr c), (''price'', JNull)]\<rparr>"

text \<open>
  A first page with the status \<open>st\<close> that holds all the products and reports the total
  \<open>n\<close> (at most 40, so that no page remains).
\<close>

definition one_page_status :: "int \<Rightarrow> product list \<Rightarrow> int \<Rightarrow> nat \<Rightarrow> plp_reply" where
  "one_page_status st ps n pg =
     (if pg = 0
      then PlpReply st (Some \<lparr>products = ps, pagination = JObj [(''totalResults'', JInt n)]\<rparr>)
      else PlpConnError)"

definition one_page :: "product list \<Rightarrow> int \<Rightarrow> nat \<Rightarrow> plp_reply" where
  "one_page ps n pg = one_page_status 200 ps n pg"

text \<open>
  A wave: the stored total is 3 and the snapshot holds A and B; the catalogue reports 5
  and the products A (not deliverable), B (deliverable), C (deliverable, in a
  \<open>productDetails\<close> list), D (the endpoint answers 403) and one product without a code.
\<close>

definition wave_db :: db where
  "wave_db = \<lparr>last_total_results = 3, prev_deliverable = [''A'', ''B'']\<rparr>"

definition wave_products :: "product list" where
  "wave_products =
     [item ''A'', item ''B'', item ''C'', item ''D'',
      \<lparr>code = None, attrs = [(''name'', JStr ''E'')]\<rparr>]"

definition wave_svc :: "nat \<Rightarrow> http_reply" where
  "wave_svc i =
     (if i = 0 then reply_json (JObj [(''servicability'', JBool False)])
      else if i = 1
      then reply_json (JObj [(''servicability'', JBool True), (''codEligible'', JBool True)])
      else if i = 2
      then reply_json
             (JObj [(''productDetails'', JList [JObj [(''servicability'', JBool True)]])])
      else if i = 3 then reply_status 403
      else ConnError)"

definition wave_env :: env where
  "wave_env =
     \<lparr>env_int = no_int, env_loads = no_loads, env_plp = one_page wave_products 5,
      env_page_order = [], env_svc = wave_svc, env_svc_order = [2, 0, 4, 1, 3]\<rparr>"

text \<open>An idle cycle: the catalogue reports the stored total again.\<close>

definition idle_db :: db where
  "idle_db = \<lparr>last_total_results = 5, prev_deliverable = [''A'']\<rparr>"

definition idle_env :: env where
  "idle_env =
     \<lparr>env_int = no_int, env_loads = no_loads, env_plp = one_page [item ''A''] 5,
      env_page_order = [],
      env_svc = (\<lambda>i. reply_json (JObj [(''servicability'', JBool False)])),
      env_svc_order = [0]\<rparr>"

text \<open>
  A shrinkage: the stored total is 8 and the snapshot holds X; the catalogue reports 7,
  X is no longer deliverable and C is.
\<close>

definition shrink_db :: db where
  "shrink_db = \<lparr>last_total_results = 8, prev_deliverable = [''X'']\<rparr>"

definition shrink_svc :: "nat \<Rightarrow> http_reply" where
  "shrink_svc i =
     (if i = 0 then reply_json (JObj [(''servicability'', JBool False)])
      else reply_json (JObj [(''servicability'', JBool True)]))"

definition shrink_env :: env where
  "shrink_env =
     \<lparr>env_int = no_int, env_loads = no_loads, env_plp = one_page [item ''X'', item ''C''] 7,
      env_page_order = [], env_svc = shrink_svc, env_svc_order = [1, 0]\<rparr>"

text \<open>A cycle whose first page is refused.\<close>

definition refused_env :: env where
  "refused_env =
     \<lparr>env_int = no_int, env_loads = no_loads, env_plp = (\<lambda>pg. PlpReply 403 None),
      env_page_order = [], env_svc = (\<lambda>i. ConnError), env_svc_order = []\<rparr>"

text \<open>
  A cycle whose first page comes with the status 300 and a body that parses: it reports
  the total 5 and the deliverable product C.
\<close>

definition redirect_env :: env where
  "redirect_env =
     \<lparr>env_int = no_int, env_loads = no_loads, env_plp = one_page_status 300 [item ''C''] 5,
      env_page_order = [],
      env_svc = (\<lambda>i. reply_json (JObj [(''servicability'', JBool True)])),
      env_svc_order = [0]\<rparr>"

text \<open>A cycle whose first page reports a total that is null.\<close>

definition null_total_env :: env where
  "null_total_env =
     \<lparr>env_int = no_int, env_loads = no_loads,
      env_plp = (\<lambda>pg. PlpReply 200
                  (Some \<lparr>products = [item ''C''],
                         pagination = JObj [(''totalResults'', JNull)]\<rparr>)),
      env_page_order = [],
      env_svc = (\<lambda>i. reply_json (JObj [(''servicability'', JBool True)])),
      env_svc_order = [0]\<rparr>"

text \<open>
  A wave with the single deliverable product C, whose price is null: the alert cannot be
  built.
\<close>

definition broken_env :: env where
  "broken_env =
     \<lparr>env_int = no_int, env_loads = no_loads, env_plp = one_page [null_price_item ''C''] 5,
      env_page_order = [],
      env_svc = (\<lambda>i. reply_json (JObj [(''servicability'', JBool True)])),
      env_svc_order = [0]\<rparr>"

text \<open>
  A shrinkage with the single product D, whose check answers with the body \<open>j\<close>.
\<close>

definition quiet_db :: db where
  "quiet_db = \<lparr>last_total_results = 8, prev_deliverable = []\<rparr>"

definition quiet_env :: "jval \<Rightarrow> env" where
  "quiet_env j =
     \<lparr>env_int = no_int, env_loads = no_loads, env_plp = one_page [item ''D''] 7,
      env_page_order = [], env_svc = (\<lambda>i. reply_json j), env_svc_order = [0]\<rparr>"

text \<open>
  A catalogue of three pages of one product each, whose second page is refused: the
  first page reports 2 pages, and the program asks for the pages 1 and 2.
\<close>

definition paged_first :: page_data where
  "paged_first =
     \<lparr>products = [item ''P0''],
      pagination = JObj [(''totalResults'', JInt 3), (''totalPages'', JInt 2)]\<rparr>"

definition paged_plp :: "nat \<Rightarrow> plp_reply" where
  "paged_plp pg =
     (if pg = 0 then PlpReply 200 (Some paged_first)
      else if pg = 1 then PlpReply 403 None
      else PlpReply 200
             (Some \<lparr>products = [item ''P2''],
                    pagination = JObj [(''totalResults'', JInt 3), (''totalPages'', JInt 2)]\<rparr>))"

definition paged_env :: env where
  "paged_env =
     \<lparr>env_int = no_int, env_loads = no_loads, env_plp = paged_plp, env_page_order = [1, 0],
      env_svc = (\<lambda>i. ConnError), env_svc_order = [1, 0]\<rparr>"

section \<open>Lemmas\<close>

subsection \<open>Completion orders\<close>

lemma valid_order_mset: "valid_order n order \<Longrightarrow> mset order = mset [0..<n]"
  unfolding valid_order_def by (metis mset_sort)

lemma as_completed_mset:
  assumes "valid_order (length futs) order"
  shows "mset (as_completed order futs) = mset futs"
proof -
  have "mset (as_completed order futs) = image_mset (\<lambda>i. futs ! i) (mset order)"
    by (simp add: as_completed_def)
  also have "\<dots> = image_mset (\<lambda>i. futs ! i) (mset [0..<length futs])"
    using assms by (simp add: valid_order_mset)
  also have "\<dots> = mset (map (\<lambda>i. futs ! i) [0..<length futs])"
    by simp
  also have "\<dots> = mset futs"
    by (simp add: map_nth)
  finally show ?thesis .
qed

lemma as_completed_set:
  "valid_order (length futs) order \<Longrightarrow> set (as_completed order futs) = set futs"
  by (metis as_completed_mset set_mset_mset)

subsection \<open>Traces\<close>

lemma alert_ids_append: "alert_ids (xs @ ys) = alert_ids xs @ alert_ids ys"
  by (induction xs rule: alert_ids.induct) auto

lemma plp_fetch_page_events: "fst (plp_fetch_page plp pg) = [HttpGetPlp pg]"
  by (simp add: plp_fetch_page_def split: plp_reply.splits option.splits)

subsection \<open>Workers\<close>

lemma svc_worker_from_worker: "from_worker (snd (svc_worker loads reply p))"
  by (simp add: svc_worker_def split: prod.splits sum.splits)

lemma svc_worker_nonempty: "[] \<notin> set (resolved_true (snd (svc_worker loads reply p)))"
  by (auto simp: svc_worker_def check_serviceability_def unknown_svc_def
      split: prod.splits sum.splits option.splits if_splits)

lemma submit_all_from_worker: "list_all from_worker (map snd (submit_all loads svc prods))"
  by (auto simp: submit_all_def list_all_iff svc_worker_from_worker)

lemma submit_all_nonempty: "[] \<notin> resolved_available (map snd (submit_all loads svc prods))"
  by (auto simp: submit_all_def resolved_available_def svc_worker_nonempty)

lemma submit_all_length: "length (submit_all loads svc prods) = length prods"
  by (simp add: submit_all_def)

lemma resolved_available_set:
  "set rs = set rs' \<Longrightarrow> resolved_available rs = resolved_available rs'"
  by (simp add: resolved_available_def)

lemma finite_resolved_available: "finite (resolved_available rs)"
  by (simp add: resolved_available_def)

lemma resolved_available_Cons:
  "resolved_available (r # rs) = set (resolved_true r) \<union> resolved_available rs"
  by (simp add: resolved_available_def)

text \<open>What the completed futures of a fan-out are, whatever their order.\<close>

lemma completed_checks:
  assumes "valid_order (length prods) order"
  shows "resolved_available (as_completed order (map snd (submit_all loads svc prods)))
           = resolved_available (map snd (submit_all loads svc prods))"
    and "list_all from_worker (as_completed order (map snd (submit_all loads svc prods)))"
proof -
  let ?futs = "map snd (submit_all loads svc prods)"
  have eq: "set (as_completed order ?futs) = set ?futs"
    using assms by (simp add: as_completed_set submit_all_length)
  then show "resolved_available (as_completed order ?futs) = resolved_available ?futs"
    by (rule resolved_available_set)
  show "list_all from_worker (as_completed order ?futs)"
    using submit_all_from_worker [of loads svc prods] eq by (simp add: list_all_iff)
qed

subsection \<open>The loops\<close>

lemma announce_cases:
  obtains (sent) "announce prd svc c = ([SendProductAlert prd svc, Log (LAlert c)], None)"
  | (unbuilt) e where "announce prd svc c = ([], Some e)"
  | (unlogged) e where "announce prd svc c = ([SendProductAlert prd svc], Some e)"
proof (cases "build_product_alert prd svc")
  case (Inl e)
  then have "announce prd svc c = ([], Some e)" by (simp add: announce_def)
  then show ?thesis by (rule unbuilt)
next
  case built: (Inr m)
  show ?thesis
  proof (cases "pick_main_image prd")
    case (Inl e)
    with built have "announce prd svc c = ([], Some e)" by (simp add: announce_def)
    then show ?thesis by (rule unbuilt)
  next
    case picked: (Inr img)
    show ?thesis
    proof (cases "alert_log_name prd")
      case (Inl e)
      with built picked have "announce prd svc c = ([SendProductAlert prd svc], Some e)"
        by (simp add: announce_def)
      then show ?thesis by (rule unlogged)
    next
      case (Inr nm)
      with built picked
      have "announce prd svc c = ([SendProductAlert prd svc, Log (LAlert c)], None)"
        by (simp add: announce_def)
      then show ?thesis by (rule sent)
    qed
  qed
qed

lemma wave_step_inv:
  assumes "wave_inv S prev st" and "from_worker r" and "set (resolved_true r) - {[]} \<subseteq> S"
  shows "case wave_step prev st r of
           (st', None) \<Rightarrow> wave_inv S prev st'
         | ((cur', ann', tr'), Some e) \<Rightarrow> wave_post S prev tr'"
proof -
  obtain cur ann tr where st: "st = (cur, ann, tr)"
    by (metis prod_cases3)
  from assms(1) st have inv: "distinct (alert_ids tr)" "set (alert_ids tr) = Some ` ann"
    "ann = cur - prev" "cur \<subseteq> S" "filter is_stock_update tr = []" "filter is_db_save tr = []"
    by (simp_all add: wave_inv_def)
  show ?thesis
  proof (cases r)
    case (Inl e)
    with assms st show ?thesis by (simp add: wave_inv_def alert_ids_append)
  next
    case (Inr t)
    obtain p c s where t: "t = (p, c, s)"
      by (metis prod_cases3)
    show ?thesis
    proof (cases c)
      case None
      with assms st Inr t show ?thesis by (simp add: wave_inv_def)
    next
      case (Some c')
      with assms(2) Inr t have cp: "code p = Some c'" by simp
      show ?thesis
      proof (cases "c' \<noteq> [] \<and> deliverable s = JBool True \<and> c' \<notin> prev \<and> c' \<notin> ann")
        case False
        then show ?thesis
          unfolding st Inr t Some
          using inv cp assms(3) Inr t Some by (auto simp: wave_inv_def alert_ids_append)
      next
        case True
        with assms(3) Inr t Some have cS: "c' \<in> S" by auto
        show ?thesis
        proof (cases rule: announce_cases [of p s c'])
          case sent
          with True show ?thesis
            unfolding st Inr t Some
            using inv cp cS by (auto simp: wave_inv_def alert_ids_append)
        next
          case (unbuilt e)
          with True show ?thesis
            unfolding st Inr t Some
            using inv cp cS by (auto simp: wave_post_def alert_ids_append)
        next
          case (unlogged e)
          with True show ?thesis
            unfolding st Inr t Some
            using inv cp cS by (auto simp: wave_post_def alert_ids_append)
        qed
      qed
    qed
  qed
qed

lemma wave_inv_post: "wave_inv S prev (cur, ann, tr) \<Longrightarrow> wave_post S prev tr"
  by (auto simp: wave_inv_def wave_post_def)

lemma wave_loop_inv:
  assumes "wave_inv S prev st" and "list_all from_worker rs"
    and "resolved_available rs - {[]} \<subseteq> S"
  shows "case wave_loop prev st rs of
           (st', None) \<Rightarrow> wave_inv S prev st'
         | ((cur', ann', tr'), Some e) \<Rightarrow> wave_post S prev tr'"
  using assms
proof (induction rs arbitrary: st)
  case Nil
  then show ?case by simp
next
  case (Cons r rs)
  from Cons.prems have r: "from_worker r" "set (resolved_true r) - {[]} \<subseteq> S"
    and rs: "list_all from_worker rs" "resolved_available rs - {[]} \<subseteq> S"
    by (auto simp: resolved_available_Cons)
  obtain st' fl where step: "wave_step prev st r = (st', fl)"
    by (metis surj_pair)
  show ?case
  proof (cases fl)
    case None
    with wave_step_inv [OF Cons.prems(1) r] step have "wave_inv S prev st'" by simp
    from Cons.IH [OF this rs] step None show ?thesis by simp
  next
    case (Some e)
    with wave_step_inv [OF Cons.prems(1) r] step show ?thesis by simp
  qed
qed

lemma wave_step_cur:
  "wave_step prev (cur0, ann0, tr0) r = ((cur, ann, tr), None) \<Longrightarrow>
     cur = cur0 \<union> (set (resolved_true r) - {[]})"
  by (cases "(prev, (cur0, ann0, tr0), r)" rule: wave_step.cases)
     (auto split: if_splits prod.splits option.splits)

lemma wave_loop_cur:
  "wave_loop prev (cur0, ann0, tr0) rs = ((cur, ann, tr), None) \<Longrightarrow>
     cur = cur0 \<union> (resolved_available rs - {[]})"
proof (induction rs arbitrary: cur0 ann0 tr0)
  case Nil
  then show ?case by (simp add: resolved_available_def)
next
  case (Cons r rs)
  obtain c1 a1 t1 fl where s: "wave_step prev (cur0, ann0, tr0) r = ((c1, a1, t1), fl)"
    by (metis surj_pair)
  with Cons.prems have fl: "fl = None"
    by (cases fl) simp_all
  with Cons.prems s have "wave_loop prev (c1, a1, t1) rs = ((cur, ann, tr), None)" by simp
  from Cons.IH [OF this] have "cur = c1 \<union> (resolved_available rs - {[]})" .
  moreover have "c1 = cur0 \<union> (set (resolved_true r) - {[]})"
    using s fl by (simp add: wave_step_cur)
  ultimately show ?case by (auto simp: resolved_available_Cons)
qed

lemma no_wave_fold:
  "foldl no_wave_step (cur0, tr0) rs = (cur, tr) \<Longrightarrow>
     cur = cur0 \<union> (resolved_available rs - {[]}) \<and>
     alert_ids tr = alert_ids tr0 \<and>
     filter is_notification tr = filter is_notification tr0 \<and>
     filter is_db_save tr = filter is_db_save tr0"
proof (induction rs arbitrary: cur0 tr0)
  case Nil
  then show ?case by (simp add: resolved_available_def)
next
  case (Cons r rs)
  obtain c1 t1 where s: "no_wave_step (cur0, tr0) r = (c1, t1)"
    by (metis surj_pair)
  with Cons.prems have "foldl no_wave_step (c1, t1) rs = (cur, tr)" by simp
  note ih = Cons.IH [OF this]
  have "c1 = cur0 \<union> (set (resolved_true r) - {[]}) \<and> alert_ids t1 = alert_ids tr0
      \<and> filter is_notification t1 = filter is_notification tr0
      \<and> filter is_db_save t1 = filter is_db_save tr0"
    using s by (cases "((cur0, tr0), r)" rule: no_wave_step.cases)
      (auto split: if_splits simp: alert_ids_append)
  with ih show ?case by (auto simp: resolved_available_def)
qed

subsection \<open>What the handlers leave\<close>

text \<open>
  A wave, whatever the order of completion: it ends with step 4, or an exception of the
  lines that announce a product ends it before, with the old list and the new total.
\<close>

lemma handle_wave_outcome:
  fixes prods :: "product list" and loads :: "string \<Rightarrow> jval option"
    and svc :: "nat \<Rightarrow> http_reply" and cache :: db and now :: int
  assumes "valid_order (length prods) order"
  defines "S \<equiv> resolved_available (map snd (submit_all loads svc prods))"
  defines "db1 \<equiv> cache\<lparr>last_total_results := now\<rparr>"
  defines "db2 \<equiv> \<lparr>last_total_results = now, prev_deliverable = sorted_list_of_set S\<rparr>"
  shows "\<exists>tr2 fl.
           handle_wave loads svc order cache prods now prev =
             \<lparr>db_cache = (case fl of None \<Rightarrow> db2 | Some e \<Rightarrow> db1),
              trace = [DbSave db1, Log (LWaveNewStock prev now), Log LWaveUpdatedTotal,
                       SendStockUpdate now prev, Log LWaveHeaderSent] @ tr2 @
                      (case fl of
                         None \<Rightarrow> [DbSave db2, Log (LWaveSnapshot (card S) now)]
                       | Some e \<Rightarrow> []),
              page_workers = [],
              svc_workers = map fst (submit_all loads svc prods),
              checks = map snd (submit_all loads svc prods),
              failure = fl\<rparr>
           \<and> wave_post S (set (prev_deliverable cache)) tr2"
proof -
  let ?futs = "map snd (submit_all loads svc prods)"
  let ?prev = "set (prev_deliverable cache)"
  obtain c a t fl where loop:
    "wave_loop ?prev ({}, {}, []) (as_completed order ?futs) = ((c, a, t), fl)"
    by (metis surj_pair)
  have avail: "resolved_available (as_completed order ?futs) = S"
    using completed_checks(1) [OF assms(1), of loads svc] by (simp add: S_def)
  have "case wave_loop ?prev ({}, {}, []) (as_completed order ?futs) of
           (st', None) \<Rightarrow> wave_inv S ?prev st'
         | ((cur', ann', tr'), Some e) \<Rightarrow> wave_post S ?prev tr'"
    by (rule wave_loop_inv)
      (simp_all add: wave_inv_def completed_checks(2) [OF assms(1)] avail)
  then have post: "wave_post S ?prev t"
    using loop by (cases fl) (simp_all add: wave_inv_post)
  show ?thesis
  proof (cases fl)
    case None
    with loop have "c = S"
      using wave_loop_cur [of ?prev "{}" "{}" "[]" "as_completed order ?futs" c a t]
        submit_all_nonempty [of loads svc prods]
      by (simp add: avail S_def)
    with loop None have "handle_wave loads svc order cache prods now prev =
             \<lparr>db_cache = db2,
              trace = [DbSave db1, Log (LWaveNewStock prev now), Log LWaveUpdatedTotal,
                       SendStockUpdate now prev, Log LWaveHeaderSent] @ t @
                      [DbSave db2, Log (LWaveSnapshot (card S) now)],
              page_workers = [],
              svc_workers = map fst (submit_all loads svc prods),
              checks = map snd (submit_all loads svc prods),
              failure = None\<rparr>"
      by (simp add: handle_wave_def Let_def db_set_last_total_results_def
          db_get_prev_deliverable_set_def db_replace_prev_deliverable_set_def db1_def db2_def)
    with post show ?thesis
      by (intro exI [of _ t] exI [of _ None]) simp
  next
    case (Some e)
    with loop have "handle_wave loads svc order cache prods now prev =
             \<lparr>db_cache = db1,
              trace = [DbSave db1, Log (LWaveNewStock prev now), Log LWaveUpdatedTotal,
                       SendStockUpdate now prev, Log LWaveHeaderSent] @ t,
              page_workers = [],
              svc_workers = map fst (submit_all loads svc prods),
              checks = map snd (submit_all loads svc prods),
              failure = Some e\<rparr>"
      by (simp add: handle_wave_def Let_def db_set_last_total_results_def
          db_get_prev_deliverable_set_def db1_def)
    with post show ?thesis
      by (intro exI [of _ t] exI [of _ "Some e"]) simp
  qed
qed

lemma handle_no_wave_outcome:
  fixes prods :: "product list" and loads :: "string \<Rightarrow> jval option"
    and svc :: "nat \<Rightarrow> http_reply" and cache :: db and now :: int
  assumes "valid_order (length prods) order" and "now \<noteq> last_total_results cache"
  defines "cur \<equiv> resolved_available (map snd (submit_all loads svc prods))"
  defines "db2 \<equiv> \<lparr>last_total_results = now, prev_deliverable = sorted_list_of_set cur\<rparr>"
  shows "\<exists>tr2.
           handle_no_wave loads svc order cache prods now =
             \<lparr>db_cache = db2,
              trace = [Log (LNoWaveChanged (last_total_results cache) now)] @ tr2 @
                      [DbSave db2, Log (LNoWaveSnapshot (card cur) now)],
              page_workers = [],
              svc_workers = map fst (submit_all loads svc prods),
              checks = map snd (submit_all loads svc prods),
              failure = None\<rparr>
           \<and> alert_ids tr2 = [] \<and> filter is_notification tr2 = []
           \<and> filter is_db_save tr2 = []"
proof -
  let ?futs = "map snd (submit_all loads svc prods)"
  obtain c t where fold:
    "foldl no_wave_step ({}, []) (as_completed order ?futs) = (c, t)"
    by (metis surj_pair)
  have c: "c = cur"
    using no_wave_fold [OF fold] completed_checks(1) [OF assms(1), of loads svc]
      submit_all_nonempty [of loads svc prods]
    by (simp add: cur_def)
  have quiet: "alert_ids t = []" "filter is_notification t = []" "filter is_db_save t = []"
    using no_wave_fold [OF fold] by simp_all
  have "handle_no_wave loads svc order cache prods now =
          \<lparr>db_cache = db2,
           trace = [Log (LNoWaveChanged (last_total_results cache) now)] @ t @
                   [DbSave db2, Log (LNoWaveSnapshot (card cur) now)],
           page_workers = [],
           svc_workers = map fst (submit_all loads svc prods),
           checks = map snd (submit_all loads svc prods),
           failure = None\<rparr>"
    using fold assms(2)
    by (simp add: handle_no_wave_def Let_def db_set_last_total_results_def
        db_get_last_total_results_def db_replace_prev_deliverable_set_def c db2_def)
  with quiet show ?thesis by blast
qed

subsection \<open>What a cycle leaves\<close>

lemma fetch_failed_page:
  "snd (plp_fetch_page (env_plp env) 0) = Inl e \<Longrightarrow> fetch env = ([HttpGetPlp 0], [], Inl e)"
  using plp_fetch_page_events [of "env_plp env" 0]
  by (cases "plp_fetch_page (env_plp env) 0") (simp add: fetch_def fetch_all_products_def)

lemma fetch_failed_totals:
  "snd (plp_fetch_page (env_plp env) 0) = Inr d0 \<Longrightarrow> read_totals (env_int env) d0 = Inl e \<Longrightarrow>
     fetch env = ([HttpGetPlp 0], [], Inl e)"
  using plp_fetch_page_events [of "env_plp env" 0]
  by (cases "plp_fetch_page (env_plp env) 0") (simp add: fetch_def fetch_all_products_def)

lemma fetch_ok:
  "snd (plp_fetch_page (env_plp env) 0) = Inr d0 \<Longrightarrow>
   read_totals (env_int env) d0 = Inr (now, tp) \<Longrightarrow>
     fetch env =
       ([HttpGetPlp 0], map fst (map (page_worker (env_plp env)) (remaining_pages now tp)),
        Inr (products d0 @
               concat (as_completed (env_page_order env)
                         (map snd (map (page_worker (env_plp env)) (remaining_pages now tp)))),
             now))"
  using plp_fetch_page_events [of "env_plp env" 0]
  by (cases "plp_fetch_page (env_plp env) 0")
     (simp add: fetch_def fetch_all_products_def Let_def)

lemma fetch_cases [case_names page totals ok]:
  obtains (page) e where "snd (plp_fetch_page (env_plp env) 0) = Inl e"
      "fetch env = ([HttpGetPlp 0], [], Inl e)"
  | (totals) d0 e where "snd (plp_fetch_page (env_plp env) 0) = Inr d0"
      "read_totals (env_int env) d0 = Inl e" "fetch env = ([HttpGetPlp 0], [], Inl e)"
  | (ok) d0 now tp pw prods where "snd (plp_fetch_page (env_plp env) 0) = Inr d0"
      "read_totals (env_int env) d0 = Inr (now, tp)"
      "fetch env = ([HttpGetPlp 0], pw, Inr (prods, now))"
proof (cases "snd (plp_fetch_page (env_plp env) 0)")
  case (Inl e)
  from Inl fetch_failed_page [OF Inl] show ?thesis by (rule page)
next
  case (Inr d0)
  show ?thesis
  proof (cases "read_totals (env_int env) d0")
    case (Inl e)
    from Inr Inl fetch_failed_totals [OF Inr Inl] show ?thesis by (rule totals)
  next
    case r: (Inr t)
    obtain now tp where t: "t = (now, tp)"
      by (metis surj_pair)
    from fetch_ok [OF Inr r [unfolded t]] Inr r t show ?thesis
      by (intro ok) auto
  qed
qed

lemma fetch_Inl: "snd (snd (fetch env)) = Inl e \<Longrightarrow> fetch env = ([HttpGetPlp 0], [], Inl e)"
  by (cases env rule: fetch_cases) auto

lemma fetch_Inr:
  "snd (snd (fetch env)) = Inr (prods, now) \<Longrightarrow>
     \<exists>pw. fetch env = ([HttpGetPlp 0], pw, Inr (prods, now))"
  by (cases env rule: fetch_cases) auto

lemma well_scheduled_svc:
  assumes "well_scheduled env" and "fetch env = (w0, pw, Inr (prods, now))"
  shows "valid_order (length prods) (env_svc_order env)"
  using assms
  by (cases env rule: fetch_cases)
     (auto simp: well_scheduled_def split: prod.splits sum.splits)

lemma poll_cycle_cases [consumes 1, case_names failed idle wave shrink]:
  assumes ws: "well_scheduled env"
  obtains
    (failed) e where
      "fetch env = ([HttpGetPlp 0], [], Inl e)"
      "poll_cycle env cache =
         \<lparr>db_cache = cache, trace = [HttpGetPlp 0, Log LMainPollLoopError],
          page_workers = [], svc_workers = [], checks = [], failure = Some e\<rparr>"
  | (idle) pw prods now where
      "fetch env = ([HttpGetPlp 0], pw, Inr (prods, now))"
      "now = last_total_results cache"
      "poll_cycle env cache =
         \<lparr>db_cache = cache,
          trace = [HttpGetPlp 0, Log (LPoll now (last_total_results cache) (length prods)),
                   Log (LNoWaveSame now)],
          page_workers = pw, svc_workers = [], checks = [], failure = None\<rparr>"
  | (wave) pw prods now tr2 fl where
      "fetch env = ([HttpGetPlp 0], pw, Inr (prods, now))"
      "now > last_total_results cache"
      "poll_cycle env cache =
         \<lparr>db_cache =
            (case fl of
               None \<Rightarrow> \<lparr>last_total_results = now, prev_deliverable = sorted_list_of_set
                 (resolved_available (map snd (submit_all (env_loads env) (env_svc env) prods)))\<rparr>
             | Some e \<Rightarrow> cache\<lparr>last_total_results := now\<rparr>),
          trace = [HttpGetPlp 0, Log (LPoll now (last_total_results cache) (length prods)),
                   DbSave (cache\<lparr>last_total_results := now\<rparr>),
                   Log (LWaveNewStock (last_total_results cache) now), Log LWaveUpdatedTotal,
                   SendStockUpdate now (last_total_results cache), Log LWaveHeaderSent] @ tr2 @
                  (case fl of
                     None \<Rightarrow>
                       [DbSave \<lparr>last_total_results = now, prev_deliverable = sorted_list_of_set
                          (resolved_available
                             (map snd (submit_all (env_loads env) (env_svc env) prods)))\<rparr>,
                        Log (LWaveSnapshot (card (resolved_available
                          (map snd (submit_all (env_loads env) (env_svc env) prods)))) now)]
                   | Some e \<Rightarrow> [Log LMainPollLoopError]),
          page_workers = pw,
          svc_workers = map fst (submit_all (env_loads env) (env_svc env) prods),
          checks = map snd (submit_all (env_loads env) (env_svc env) prods),
          failure = fl\<rparr>"
      "wave_post (resolved_available (map snd (submit_all (env_loads env) (env_svc env) prods)))
         (set (prev_deliverable cache)) tr2"
  | (shrink) pw prods now tr2 where
      "fetch env = ([HttpGetPlp 0], pw, Inr (prods, now))"
      "now < last_total_results cache"
      "poll_cycle env cache =
         \<lparr>db_cache = \<lparr>last_total_results = now, prev_deliverable = sorted_list_of_set
             (resolved_available (map snd (submit_all (env_loads env) (env_svc env) prods)))\<rparr>,
          trace = [HttpGetPlp 0, Log (LPoll now (last_total_results cache) (length prods)),
                   Log (LNoWaveChanged (last_total_results cache) now)] @ tr2 @
                  [DbSave \<lparr>last_total_results = now, prev_deliverable = sorted_list_of_set
                     (resolved_available
                        (map snd (submit_all (env_loads env) (env_svc env) prods)))\<rparr>,
                   Log (LNoWaveSnapshot (card (resolved_available
                     (map snd (submit_all (env_loads env) (env_svc env) prods)))) now)],
          page_workers = pw,
          svc_workers = map fst (submit_all (env_loads env) (env_svc env) prods),
          checks = map snd (submit_all (env_loads env) (env_svc env) prods),
          failure = None\<rparr>"
      "alert_ids tr2 = []" "filter is_notification tr2 = []" "filter is_db_save tr2 = []"
proof -
  have fail: thesis if f: "fetch env = ([HttpGetPlp 0], [], Inl e)" for e
  proof -
    from f have "poll_cycle env cache =
         \<lparr>db_cache = cache, trace = [HttpGetPlp 0, Log LMainPollLoopError],
          page_workers = [], svc_workers = [], checks = [], failure = Some e\<rparr>"
      by (simp add: poll_cycle_def)
    with f show ?thesis by (rule failed)
  qed
  show ?thesis
  proof (cases env rule: fetch_cases)
    case (page e)
    then show ?thesis by (intro fail)
  next
    case (totals d0 e)
    then show ?thesis by (intro fail)
  next
    case (ok d0 now tp pw prods)
    note fetch = ok(3)
    note vo = well_scheduled_svc [OF ws fetch]
    consider "now = last_total_results cache" | "now > last_total_results cache"
      | "now < last_total_results cache" by linarith
    then show ?thesis
    proof cases
      case 1
      have "poll_cycle env cache =
           \<lparr>db_cache = cache,
            trace = [HttpGetPlp 0, Log (LPoll now (last_total_results cache) (length prods)),
                     Log (LNoWaveSame now)],
            page_workers = pw, svc_workers = [], checks = [], failure = None\<rparr>"
        using fetch 1
        by (simp add: poll_cycle_def Let_def db_get_last_total_results_def handle_no_wave_def)
      with fetch 1 show ?thesis by (rule idle)
    next
      case 2
      from handle_wave_outcome [OF vo, of "env_loads env" "env_svc env" cache now
          "last_total_results cache"]
      obtain tr2 fl where
        hw: "handle_wave (env_loads env) (env_svc env) (env_svc_order env) cache prods now
               (last_total_results cache) =
             \<lparr>db_cache =
                (case fl of
                   None \<Rightarrow> \<lparr>last_total_results = now, prev_deliverable = sorted_list_of_set
                     (resolved_available
                        (map snd (submit_all (env_loads env) (env_svc env) prods)))\<rparr>
                 | Some e \<Rightarrow> cache\<lparr>last_total_results := now\<rparr>),
              trace = [DbSave (cache\<lparr>last_total_results := now\<rparr>),
                       Log (LWaveNewStock (last_total_results cache) now), Log LWaveUpdatedTotal,
                       SendStockUpdate now (last_total_results cache), Log LWaveHeaderSent] @
                      tr2 @
                      (case fl of
                         None \<Rightarrow>
                           [DbSave \<lparr>last_total_results = now,
                              prev_deliverable = sorted_list_of_set
                                (resolved_available
                                   (map snd (submit_all (env_loads env) (env_svc env) prods)))\<rparr>,
                            Log (LWaveSnapshot (card (resolved_available
                              (map snd (submit_all (env_loads env) (env_svc env) prods)))) now)]
                       | Some e \<Rightarrow> []),
              page_workers = [],
              svc_workers = map fst (submit_all (env_loads env) (env_svc env) prods),
              checks = map snd (submit_all (env_loads env) (env_svc env) prods),
              failure = fl\<rparr>"
        and post: "wave_post
           (resolved_available (map snd (submit_all (env_loads env) (env_svc env) prods)))
           (set (prev_deliverable cache)) tr2"
        by blast
      have "poll_cycle env cache =
         \<lparr>db_cache =
            (case fl of
               None \<Rightarrow> \<lparr>last_total_results = now, prev_deliverable = sorted_list_of_set
                 (resolved_available (map snd (submit_all (env_loads env) (env_svc env) prods)))\<rparr>
             | Some e \<Rightarrow> cache\<lparr>last_total_results := now\<rparr>),
          trace = [HttpGetPlp 0, Log (LPoll now (last_total_results cache) (length prods)),
                   DbSave (cache\<lparr>last_total_results := now\<rparr>),
                   Log (LWaveNewStock (last_total_results cache) now), Log LWaveUpdatedTotal,
                   SendStockUpdate now (last_total_results cache), Log LWaveHeaderSent] @ tr2 @
                  (case fl of
                     None \<Rightarrow>
                       [DbSave \<lparr>last_total_results = now, prev_deliverable = sorted_list_of_set
                          (resolved_available
                             (map snd (submit_all (env_loads env) (env_svc env) prods)))\<rparr>,
                        Log (LWaveSnapshot (card (resolved_available
                          (map snd (submit_all (env_loads env) (env_svc env) prods)))) now)]
                   | Some e \<Rightarrow> [Log LMainPollLoopError]),
          page_workers = pw,
          svc_workers = map fst (submit_all (env_loads env) (env_svc env) prods),
          checks = map snd (submit_all (env_loads env) (env_svc env) prods),
          failure = fl\<rparr>"
        using fetch 2
        by (cases fl) (simp_all add: poll_cycle_def Let_def db_get_last_total_results_def hw)
      with fetch 2 show ?thesis using post by (rule wave)
    next
      case 3
      then have ne: "now \<noteq> last_total_results cache" by simp
      from handle_no_wave_outcome [OF vo ne, of "env_loads env" "env_svc env"]
      obtain tr2 where
        hw: "handle_no_wave (env_loads env) (env_svc env) (env_svc_order env) cache prods now =
             \<lparr>db_cache = \<lparr>last_total_results = now, prev_deliverable = sorted_list_of_set
               (resolved_available (map snd (submit_all (env_loads env) (env_svc env) prods)))\<rparr>,
              trace = [Log (LNoWaveChanged (last_total_results cache) now)] @ tr2 @
                      [DbSave \<lparr>last_total_results = now, prev_deliverable = sorted_list_of_set
                         (resolved_available
                            (map snd (submit_all (env_loads env) (env_svc env) prods)))\<rparr>,
                       Log (LNoWaveSnapshot (card (resolved_available
                         (map snd (submit_all (env_loads env) (env_svc env) prods)))) now)],
              page_workers = [],
              svc_workers = map fst (submit_all (env_loads env) (env_svc env) prods),
              checks = map snd (submit_all (env_loads env) (env_svc env) prods),
              failure = None\<rparr>"
        and props: "alert_ids tr2 = []" "filter is_notification tr2 = []"
          "filter is_db_save tr2 = []"
        by blast
      have "poll_cycle env cache =
           \<lparr>db_cache = \<lparr>last_total_results = now, prev_deliverable = sorted_list_of_set
               (resolved_available (map snd (submit_all (env_loads env) (env_svc env) prods)))\<rparr>,
            trace = [HttpGetPlp 0, Log (LPoll now (last_total_results cache) (length prods)),
                     Log (LNoWaveChanged (last_total_results cache) now)] @ tr2 @
                    [DbSave \<lparr>last_total_results = now, prev_deliverable = sorted_list_of_set
                       (resolved_available
                          (map snd (submit_all (env_loads env) (env_svc env) prods)))\<rparr>,
                     Log (LNoWaveSnapshot (card (resolved_available
                       (map snd (submit_all (env_loads env) (env_svc env) prods)))) now)],
            page_workers = pw,
            svc_workers = map fst (submit_all (env_loads env) (env_svc env) prods),
            checks = map snd (submit_all (env_loads env) (env_svc env) prods),
            failure = None\<rparr>"
        using fetch 3 by (simp add: poll_cycle_def Let_def db_get_last_total_results_def hw)
      with fetch 3 show ?thesis using props by (rule shrink)
    qed
  qed
qed

subsection \<open>The example cycles\<close>

lemma well_scheduled_wave_env: "well_scheduled wave_env"
  by code_simp

lemma well_scheduled_shrink_env: "well_scheduled shrink_env"
  by code_simp

lemma well_scheduled_idle_env: "well_scheduled idle_env"
  by code_simp

lemma well_scheduled_paged_env: "well_scheduled paged_env"
  by code_simp

lemma well_scheduled_broken_env: "well_scheduled broken_env"
  by code_simp

lemma fetch_wave_env: "snd (snd (fetch wave_env)) = Inr (wave_products, 5)"
  by code_simp

lemma fetch_shrink_env: "snd (snd (fetch shrink_env)) = Inr ([item ''X'', item ''C''], 7)"
  by code_simp

lemma fetch_idle_env: "snd (snd (fetch idle_env)) = Inr ([item ''A''], 5)"
  by code_simp

lemma valid_order_wave_1: "valid_order (length wave_products) [2, 0, 4, 1, 3]"
  by code_simp

lemma valid_order_wave_2: "valid_order (length wave_products) [0, 1, 2, 3, 4]"
  by code_simp

text \<open>
  A wave that is cut short: the alert for C cannot be built, the exception leaves
  \<open>handle_wave\<close> before step 4, and the cycle ends with the new total and the old list,
  although the check resolved C.
\<close>

lemma wave_cut_short_keeps_old_list:
  "failure (poll_cycle broken_env wave_db) = Some AttributeError \<and>
   db_cache (poll_cycle broken_env wave_db)
     = \<lparr>last_total_results = 5, prev_deliverable = [''A'', ''B'']\<rparr> \<and>
   resolved_available (checks (poll_cycle broken_env wave_db)) = {''C''} \<and>
   trace (poll_cycle broken_env wave_db) =
     [HttpGetPlp 0, Log (LPoll 5 3 1),
      DbSave \<lparr>last_total_results = 5, prev_deliverable = [''A'', ''B'']\<rparr>,
      Log (LWaveNewStock 3 5), Log LWaveUpdatedTotal, SendStockUpdate 5 3,
      Log LWaveHeaderSent, Log LMainPollLoopError]"
  by code_simp

text \<open>
  With the code C fetched twice, once with a price that is null, the order of completion
  decides whether the wave reaches step 4.
\<close>

lemma wave_cut_short_depends_on_order:
  "db_cache (handle_wave no_loads (\<lambda>i. reply_json (JObj [(''servicability'', JBool True)]))
      [0, 1] wave_db [null_price_item ''C'', item ''C''] 5 3)
     = \<lparr>last_total_results = 5, prev_deliverable = [''A'', ''B'']\<rparr> \<and>
   db_cache (handle_wave no_loads (\<lambda>i. reply_json (JObj [(''servicability'', JBool True)]))
      [1, 0] wave_db [null_price_item ''C'', item ''C''] 5 3)
     = \<lparr>last_total_results = 5, prev_deliverable = [''C'']\<rparr>"
  by code_simp

subsection \<open>The serviceability check\<close>

lemma svc_fields_total_iff: "(\<exists>s. svc_fields j = Inr s) \<longleftrightarrow> reads_as_object j"
proof (cases j)
  case (JObj kvs)
  show ?thesis
  proof (cases "first_detail (dict_get kvs ''productDetails'' JNull)")
    case (JObj kvs')
    with \<open>j = JObj kvs\<close> show ?thesis
      by (simp add: svc_fields_def reads_as_object_def jget_def Let_def)
  qed (simp_all add: \<open>j = JObj kvs\<close> svc_fields_def reads_as_object_def jget_def Let_def)
qed (simp_all add: svc_fields_def reads_as_object_def jget_def)

text \<open>The failures that the check anticipates all give the result with both fields None.\<close>

lemma check_serviceability_anticipated_failures:
  assumes "product_code = None \<or> product_code = Some [] \<or> reply = ConnError \<or>
     (\<exists>r. reply = Reply r \<and> (status_code r \<noteq> 200 \<or> parsed_body loads r = None))"
  shows "snd (check_serviceability loads reply product_code pincode) = Inr unknown_svc"
  using assms
  by (auto simp: check_serviceability_def split: option.splits http_reply.splits)

section \<open>The claims\<close>

text \<open>
  Claim C1 (no duplicate notification). In a cycle no identifier is alerted twice, and
  no identifier that the snapshot held when the cycle started is alerted, whatever the
  checks return, in whatever order they complete, and however the cycle ends.
\<close>

theorem no_duplicate_notification:
  assumes "well_scheduled env"
  shows "distinct (alert_ids (trace (poll_cycle env cache))) \<and>
         set (alert_ids (trace (poll_cycle env cache))) \<inter> Some ` set (prev_deliverable cache) = {}"
  using assms
proof (cases rule: poll_cycle_cases [where cache = cache])
  case (failed e)
  then show ?thesis by simp
next
  case (idle pw prods now)
  then show ?thesis by simp
next
  case (wave pw prods now tr2 fl)
  then show ?thesis
    by (cases fl) (auto simp: alert_ids_append wave_post_def)
next
  case (shrink pw prods now tr2)
  then show ?thesis by (simp add: alert_ids_append)
qed

theorem no_duplicate_notification_witness:
  "well_scheduled wave_env \<and>
   alert_ids (trace (poll_cycle wave_env wave_db)) = [Some ''C''] \<and>
   distinct (alert_ids (trace (poll_cycle wave_env wave_db))) \<and>
   set (alert_ids (trace (poll_cycle wave_env wave_db))) \<inter> Some ` set (prev_deliverable wave_db) = {}"
proof -
  have "alert_ids (trace (poll_cycle wave_env wave_db)) = [Some ''C'']"
    by code_simp
  with no_duplicate_notification [OF well_scheduled_wave_env, of wave_db]
    well_scheduled_wave_env
  show ?thesis by simp
qed

text \<open>
  Claim C2 (replacement, not accumulation). As stated for every completed cycle the
  claim fails: a cycle that meets the stored total again runs no check and keeps the
  snapshot, here the identifier A, which no check of that cycle resolved.
\<close>

theorem replacement_fails_on_equal_total:
  "snd (snd (fetch idle_env)) = Inr ([item ''A''], 5) \<and>
   failure (poll_cycle idle_env idle_db) = None \<and>
   set (prev_deliverable (db_cache (poll_cycle idle_env idle_db))) = {''A''} \<and>
   resolved_available (checks (poll_cycle idle_env idle_db)) = {} \<and>
   set (prev_deliverable (db_cache (poll_cycle idle_env idle_db)))
     \<noteq> resolved_available (checks (poll_cycle idle_env idle_db))"
  by code_simp

text \<open>
  Claim C2, amended. After a cycle that no exception ended, whose fetch succeeded and
  whose total differs from the stored one, the snapshot holds exactly the identifiers
  that the checks of the cycle resolved deliverable, each once, and the stored total is
  the new one.
\<close>

theorem snapshot_replaced_when_total_changes:
  assumes "well_scheduled env"
    and "snd (snd (fetch env)) = Inr (prods, now)"
    and "now \<noteq> last_total_results cache"
    and "failure (poll_cycle env cache) = None"
  shows "set (prev_deliverable (db_cache (poll_cycle env cache)))
           = resolved_available (checks (poll_cycle env cache)) \<and>
         distinct (prev_deliverable (db_cache (poll_cycle env cache))) \<and>
         last_total_results (db_cache (poll_cycle env cache)) = now"
  using assms(1)
proof (cases rule: poll_cycle_cases [where cache = cache])
  case (failed e)
  with assms(2) show ?thesis by simp
next
  case (idle pw prods' now')
  with assms(2,3) show ?thesis by simp
next
  case (wave pw prods' now' tr2 fl)
  with assms(4) have "fl = None" by simp
  with wave assms(2) show ?thesis by (simp add: finite_resolved_available)
next
  case (shrink pw prods' now' tr2)
  with assms(2) show ?thesis by (simp add: finite_resolved_available)
qed

theorem snapshot_replaced_when_total_changes_witness:
  "well_scheduled wave_env \<and>
   snd (snd (fetch wave_env)) = Inr (wave_products, 5) \<and>
   5 \<noteq> last_total_results wave_db \<and>
   failure (poll_cycle wave_env wave_db) = None \<and>
   set (prev_deliverable wave_db) = {''A'', ''B''} \<and>
   set (prev_deliverable (db_cache (poll_cycle wave_env wave_db))) = {''B'', ''C''} \<and>
   set (prev_deliverable (db_cache (poll_cycle wave_env wave_db)))
     = resolved_available (checks (poll_cycle wave_env wave_db)) \<and>
   last_total_results (db_cache (poll_cycle wave_env wave_db)) = 5"
proof -
  have ne: "5 \<noteq> last_total_results wave_db"
    by (simp add: wave_db_def)
  have nf: "failure (poll_cycle wave_env wave_db) = None"
    by code_simp
  have "set (prev_deliverable wave_db) = {''A'', ''B''}"
    by (simp add: wave_db_def)
  moreover have "set (prev_deliverable (db_cache (poll_cycle wave_env wave_db))) = {''B'', ''C''}"
    by code_simp
  ultimately show ?thesis
    using snapshot_replaced_when_total_changes
      [OF well_scheduled_wave_env fetch_wave_env ne nf]
      well_scheduled_wave_env fetch_wave_env ne nf
    by simp
qed

text \<open>
  Claim C3 (wave ordering). When the total that the catalogue reports exceeds the stored
  one, the cycle first saves the database with the new total, then sends the stock
  update, and only then the product alerts: the trace starts with the page request, the
  poll line, the save and the stock update, and no second stock update follows.
\<close>

theorem wave_ordering:
  assumes "well_scheduled env"
    and "snd (snd (fetch env)) = Inr (prods, now)"
    and "now > last_total_results cache"
  shows "\<exists>post. trace (poll_cycle env cache) =
           [HttpGetPlp 0, Log (LPoll now (last_total_results cache) (length prods)),
            DbSave (cache\<lparr>last_total_results := now\<rparr>),
            Log (LWaveNewStock (last_total_results cache) now), Log LWaveUpdatedTotal,
            SendStockUpdate now (last_total_results cache)] @ post
         \<and> filter is_stock_update post = []"
  using assms(1)
proof (cases rule: poll_cycle_cases [where cache = cache])
  case (failed e)
  with assms(2) show ?thesis by simp
next
  case (idle pw prods' now')
  with assms(2,3) show ?thesis by simp
next
  case (wave pw prods' now' tr2 fl)
  with assms(2) show ?thesis
    by (cases fl) (simp_all add: wave_post_def)
next
  case (shrink pw prods' now' tr2)
  with assms(2,3) show ?thesis by simp
qed

theorem wave_ordering_witness:
  "well_scheduled wave_env \<and>
   snd (snd (fetch wave_env)) = Inr (wave_products, 5) \<and>
   5 > last_total_results wave_db \<and>
   (\<exists>post. trace (poll_cycle wave_env wave_db) =
           [HttpGetPlp 0, Log (LPoll 5 (last_total_results wave_db) (length wave_products)),
            DbSave (wave_db\<lparr>last_total_results := 5\<rparr>),
            Log (LWaveNewStock (last_total_results wave_db) 5), Log LWaveUpdatedTotal,
            SendStockUpdate 5 (last_total_results wave_db)] @ post
         \<and> filter is_stock_update post = [])"
proof -
  have gt: "5 > last_total_results wave_db"
    by (simp add: wave_db_def)
  from wave_ordering [OF well_scheduled_wave_env fetch_wave_env gt]
    well_scheduled_wave_env fetch_wave_env gt
  show ?thesis by blast
qed

text \<open>
  Claim C4 (equal total). A cycle that meets the stored total again runs no
  serviceability check, sends no notification, saves nothing and leaves the database as
  it was.
\<close>

theorem equal_total_is_idle:
  assumes "snd (snd (fetch env)) = Inr (prods, now)"
    and "now = last_total_results cache"
  shows "checks (poll_cycle env cache) = [] \<and>
         svc_workers (poll_cycle env cache) = [] \<and>
         filter is_notification (trace (poll_cycle env cache)) = [] \<and>
         filter is_db_save (trace (poll_cycle env cache)) = [] \<and>
         db_cache (poll_cycle env cache) = cache"
proof -
  from fetch_Inr [OF assms(1)] obtain pw where
    "fetch env = ([HttpGetPlp 0], pw, Inr (prods, now))" ..
  then show ?thesis
    using assms(2)
    by (simp add: poll_cycle_def Let_def db_get_last_total_results_def handle_no_wave_def)
qed

theorem equal_total_is_idle_witness:
  "snd (snd (fetch idle_env)) = Inr ([item ''A''], 5) \<and>
   5 = last_total_results idle_db \<and>
   checks (poll_cycle idle_env idle_db) = [] \<and>
   svc_workers (poll_cycle idle_env idle_db) = [] \<and>
   filter is_notification (trace (poll_cycle idle_env idle_db)) = [] \<and>
   filter is_db_save (trace (poll_cycle idle_env idle_db)) = [] \<and>
   db_cache (poll_cycle idle_env idle_db) = idle_db"
proof -
  have eq: "5 = last_total_results idle_db"
    by (simp add: idle_db_def)
  from equal_total_is_idle [OF fetch_idle_env eq] fetch_idle_env eq
  show ?thesis by simp
qed

text \<open>
  Claim C5 (shrinkage). As stated the claim fails: when the total went down, the cycle
  sends no alert at all, here for C, which resolves deliverable and is not in the
  snapshot.
\<close>

theorem shrinkage_sends_no_alert:
  "snd (snd (fetch shrink_env)) = Inr ([item ''X'', item ''C''], 7) \<and>
   7 < last_total_results shrink_db \<and>
   checks (poll_cycle shrink_env shrink_db) ! 1
     = Inr (item ''C'', Some ''C'', \<lparr>deliverable = JBool True, codEligible = JNull\<rparr>) \<and>
   ''C'' \<notin> set (prev_deliverable shrink_db) \<and>
   filter is_notification (trace (poll_cycle shrink_env shrink_db)) = []"
  by code_simp

text \<open>
  Claim C5, amended. When the total went down, a check is run for every product
  fetched, no notification is sent, neither the stock update nor a product alert, and
  the database is replaced by the new total and the sorted identifiers that resolved
  deliverable.
\<close>

theorem shrinkage_refreshes_quietly:
  assumes "well_scheduled env"
    and "snd (snd (fetch env)) = Inr (prods, now)"
    and "now < last_total_results cache"
  shows "checks (poll_cycle env cache) = map snd (submit_all (env_loads env) (env_svc env) prods) \<and>
         length (checks (poll_cycle env cache)) = length prods \<and>
         filter is_notification (trace (poll_cycle env cache)) = [] \<and>
         db_cache (poll_cycle env cache) =
           \<lparr>last_total_results = now,
            prev_deliverable =
              sorted_list_of_set (resolved_available (checks (poll_cycle env cache)))\<rparr>"
  using assms(1)
proof (cases rule: poll_cycle_cases [where cache = cache])
  case (failed e)
  with assms(2) show ?thesis by simp
next
  case (idle pw prods' now')
  with assms(2,3) show ?thesis by simp
next
  case (wave pw prods' now' tr2 fl)
  with assms(2,3) show ?thesis by simp
next
  case (shrink pw prods' now' tr2)
  with assms(2) show ?thesis by (simp add: submit_all_length)
qed

theorem shrinkage_refreshes_quietly_witness:
  "well_scheduled shrink_env \<and>
   snd (snd (fetch shrink_env)) = Inr ([item ''X'', item ''C''], 7) \<and>
   7 < last_total_results shrink_db \<and>
   length (checks (poll_cycle shrink_env shrink_db)) = 2 \<and>
   filter is_notification (trace (poll_cycle shrink_env shrink_db)) = [] \<and>
   db_cache (poll_cycle shrink_env shrink_db) =
     \<lparr>last_total_results = 7,
      prev_deliverable =
        sorted_list_of_set (resolved_available (checks (poll_cycle shrink_env shrink_db)))\<rparr>"
proof -
  have lt: "7 < last_total_results shrink_db"
    by (simp add: shrink_db_def)
  from shrinkage_refreshes_quietly [OF well_scheduled_shrink_env fetch_shrink_env lt]
    well_scheduled_shrink_env fetch_shrink_env lt
  show ?thesis by (simp add: submit_all_length)
qed

text \<open>
  Claim C6 (unknown is not false). As stated the claim fails in its last part: when the
  total went down, a check that returns None and a check that returns False leave the
  same database, the same trace and the same worker events; nothing tells them apart.
\<close>

theorem shrinkage_does_not_tell_unknown_from_false:
  "checks (poll_cycle (quiet_env (JObj [(''servicability'', JNull)])) quiet_db)
     = [Inr (item ''D'', Some ''D'', \<lparr>deliverable = JNull, codEligible = JNull\<rparr>)] \<and>
   checks (poll_cycle (quiet_env (JObj [(''servicability'', JBool False)])) quiet_db)
     = [Inr (item ''D'', Some ''D'', \<lparr>deliverable = JBool False, codEligible = JNull\<rparr>)] \<and>
   db_cache (poll_cycle (quiet_env (JObj [(''servicability'', JNull)])) quiet_db)
     = db_cache (poll_cycle (quiet_env (JObj [(''servicability'', JBool False)])) quiet_db) \<and>
   trace (poll_cycle (quiet_env (JObj [(''servicability'', JNull)])) quiet_db)
     = trace (poll_cycle (quiet_env (JObj [(''servicability'', JBool False)])) quiet_db) \<and>
   svc_workers (poll_cycle (quiet_env (JObj [(''servicability'', JNull)])) quiet_db)
     = svc_workers (poll_cycle (quiet_env (JObj [(''servicability'', JBool False)])) quiet_db) \<and>
   page_workers (poll_cycle (quiet_env (JObj [(''servicability'', JNull)])) quiet_db)
     = page_workers (poll_cycle (quiet_env (JObj [(''servicability'', JBool False)])) quiet_db)"
  by code_simp

text \<open>
  Claim C6, amended. An identifier that no check of a cycle resolved deliverable is not
  alerted and is not added to the snapshot: it is in the stored list after the cycle
  only if the cycle left the stored list as it was. An item whose check returns anything
  but True adds nothing to the set and sends nothing in either loop; the loop of the
  wave logs a None as unknown and any other value as not deliverable, the loop of the
  shrinkage does nothing for either.
\<close>

theorem unknown_is_skipped:
  assumes "well_scheduled env"
    and "c \<notin> resolved_available (checks (poll_cycle env cache))"
    and "deliverable s \<noteq> JBool True"
  shows "Some c \<notin> set (alert_ids (trace (poll_cycle env cache))) \<and>
         (c \<notin> set (prev_deliverable (db_cache (poll_cycle env cache))) \<or>
          prev_deliverable (db_cache (poll_cycle env cache)) = prev_deliverable cache) \<and>
         wave_step prev (cur, ann, tr) (Inr (p, Some c', s)) =
           ((cur, ann,
             tr @ (if c' = [] then []
                   else if deliverable s = JNull then [Log (LAlertSkipUnknown c')]
                   else [Log (LAlertSkipNotDeliverable c')])), None) \<and>
         no_wave_step (cur, tr) (Inr (p, Some c', s)) = (cur, tr)"
proof -
  have steps: "wave_step prev (cur, ann, tr) (Inr (p, Some c', s)) =
           ((cur, ann,
             tr @ (if c' = [] then []
                   else if deliverable s = JNull then [Log (LAlertSkipUnknown c')]
                   else [Log (LAlertSkipNotDeliverable c')])), None)"
    "no_wave_step (cur, tr) (Inr (p, Some c', s)) = (cur, tr)"
    using assms(3) by simp_all
  have cyc: "Some c \<notin> set (alert_ids (trace (poll_cycle env cache))) \<and>
         (c \<notin> set (prev_deliverable (db_cache (poll_cycle env cache))) \<or>
          prev_deliverable (db_cache (poll_cycle env cache)) = prev_deliverable cache)"
    using assms(1)
  proof (cases rule: poll_cycle_cases [where cache = cache])
    case (failed e)
    then show ?thesis by simp
  next
    case (idle pw prods' now')
    then show ?thesis by simp
  next
    case (wave pw prods' now' tr2 fl)
    with assms(2) show ?thesis
      by (cases fl) (auto simp: alert_ids_append finite_resolved_available wave_post_def)
  next
    case (shrink pw prods' now' tr2)
    with assms(2) show ?thesis by (simp add: alert_ids_append finite_resolved_available)
  qed
  from steps cyc show ?thesis by simp
qed

theorem unknown_is_skipped_witness:
  "well_scheduled wave_env \<and>
   checks (poll_cycle wave_env wave_db) ! 3
     = Inr (item ''D'', Some ''D'', \<lparr>deliverable = JNull, codEligible = JNull\<rparr>) \<and>
   ''D'' \<notin> resolved_available (checks (poll_cycle wave_env wave_db)) \<and>
   deliverable unknown_svc \<noteq> JBool True \<and>
   ''D'' \<notin> set (prev_deliverable (db_cache (poll_cycle wave_env wave_db))) \<and>
   Some ''D'' \<notin> set (alert_ids (trace (poll_cycle wave_env wave_db))) \<and>
   wave_step {} ({}, {}, []) (Inr (item ''D'', Some ''D'', unknown_svc))
     = (({}, {}, [Log (LAlertSkipUnknown ''D'')]), None)"
proof -
  have d: "''D'' \<notin> resolved_available (checks (poll_cycle wave_env wave_db))"
    by code_simp
  have u: "deliverable unknown_svc \<noteq> JBool True"
    by (simp add: unknown_svc_def)
  have c: "checks (poll_cycle wave_env wave_db) ! 3
     = Inr (item ''D'', Some ''D'', \<lparr>deliverable = JNull, codEligible = JNull\<rparr>)"
    by code_simp
  have n: "''D'' \<notin> set (prev_deliverable (db_cache (poll_cycle wave_env wave_db)))"
    by code_simp
  from unknown_is_skipped [OF well_scheduled_wave_env d u,
      of "{}" "{}" "{}" "[]" "item ''D''" "''D''"]
    well_scheduled_wave_env d u c n
  show ?thesis by (simp add: unknown_svc_def)
qed

text \<open>
  Claim C7 (the check never raises). The check returns the result with both fields None
  for every failure that it anticipates, but it reads the parsed body with \<open>.get\<close>
  outside any \<open>try\<close>: a body that parses to a JSON value other than a dict, or whose
  first product detail is neither false nor a dict, makes AttributeError leave the check.
\<close>

theorem check_serviceability_raises_on_other_shapes:
  "snd (check_serviceability no_loads (reply_json (JList [])) (Some ''A'') REAL_PIN)
     = Inl AttributeError \<and>
   snd (check_serviceability no_loads
          (reply_json (JObj [(''productDetails'', JList [JStr ''x''])])) (Some ''A'') REAL_PIN)
     = Inl AttributeError"
  by code_simp

text \<open>
  Claim C8 (first page failure). As stated the claim fails for a status that is neither
  a success nor an error status: \<open>raise_for_status\<close> lets the status 300 pass, and with
  a body that parses the cycle goes on, saves the new total and the new list and sends
  the stock update and an alert.
\<close>

theorem first_page_status_300_is_processed:
  "env_plp redirect_env 0 =
     PlpReply 300 (Some \<lparr>products = [item ''C''],
                          pagination = JObj [(''totalResults'', JInt 5)]\<rparr>) \<and>
   failure (poll_cycle redirect_env wave_db) = None \<and>
   db_cache (poll_cycle redirect_env wave_db)
     = \<lparr>last_total_results = 5, prev_deliverable = [''C'']\<rparr> \<and>
   db_cache (poll_cycle redirect_env wave_db) \<noteq> wave_db \<and>
   filter is_stock_update (trace (poll_cycle redirect_env wave_db)) = [SendStockUpdate 5 3] \<and>
   alert_ids (trace (poll_cycle redirect_env wave_db)) = [Some ''C'']"
  by code_simp

text \<open>
  Claim C8, amended. When the fetch raises, the cycle ends with the database as it was:
  it saves nothing, checks nothing and sends nothing. The fetch raises when the request
  of the first page raises, when its status is 403 or lies between 400 and 599, when its
  body does not parse, and when the totals of the first page cannot be read. When the
  first page is fetched and its totals are read, the fetch succeeds whatever the later
  pages do: its products are those of the first page and of each later page that was
  fetched, a page that failed gives none, and the cycle goes on to compare the totals.
\<close>

theorem first_page_failure_atomicity:
  "(snd (snd (fetch env)) = Inl e \<longrightarrow>
      poll_cycle env cache =
        \<lparr>db_cache = cache, trace = [HttpGetPlp 0, Log LMainPollLoopError],
         page_workers = [], svc_workers = [], checks = [], failure = Some e\<rparr>)
   \<and>
   (env_plp env 0 = PlpConnError \<or>
    (\<exists>st body. env_plp env 0 = PlpReply st body \<and>
       (st = 403 \<or> (400 \<le> st \<and> st < 600) \<or> body = None)) \<longrightarrow>
      (\<exists>e'. snd (snd (fetch env)) = Inl e'))
   \<and>
   (snd (plp_fetch_page (env_plp env) 0) = Inr d0 \<and> read_totals (env_int env) d0 = Inl e \<longrightarrow>
      snd (snd (fetch env)) = Inl e)
   \<and>
   (snd (plp_fetch_page (env_plp env) 0) = Inr d0 \<and>
    read_totals (env_int env) d0 = Inr (now, tp) \<and>
    valid_order (length (remaining_pages now tp)) (env_page_order env) \<longrightarrow>
      (\<exists>prods.
         snd (snd (fetch env)) = Inr (prods, now) \<and>
         mset prods = mset (products d0) +
           (\<Sum>pg\<leftarrow>remaining_pages now tp.
              mset (case snd (plp_fetch_page (env_plp env) pg) of
                      Inl e \<Rightarrow> [] | Inr d \<Rightarrow> products d)) \<and>
         take 2 (trace (poll_cycle env cache)) =
           [HttpGetPlp 0, Log (LPoll now (last_total_results cache) (length prods))]))"
proof (intro conjI impI)
  assume "snd (snd (fetch env)) = Inl e"
  from fetch_Inl [OF this]
  show "poll_cycle env cache =
        \<lparr>db_cache = cache, trace = [HttpGetPlp 0, Log LMainPollLoopError],
         page_workers = [], svc_workers = [], checks = [], failure = Some e\<rparr>"
    by (simp add: poll_cycle_def)
next
  assume "env_plp env 0 = PlpConnError \<or>
    (\<exists>st body. env_plp env 0 = PlpReply st body \<and>
       (st = 403 \<or> (400 \<le> st \<and> st < 600) \<or> body = None))"
  then have "\<exists>e'. snd (plp_fetch_page (env_plp env) 0) = Inl e'"
    by (auto simp: plp_fetch_page_def)
  then obtain e' where "snd (plp_fetch_page (env_plp env) 0) = Inl e'" ..
  from fetch_failed_page [OF this] show "\<exists>e'. snd (snd (fetch env)) = Inl e'"
    by simp
next
  assume "snd (plp_fetch_page (env_plp env) 0) = Inr d0 \<and> read_totals (env_int env) d0 = Inl e"
  then show "snd (snd (fetch env)) = Inl e"
    by (simp add: fetch_failed_totals)
next
  assume a: "snd (plp_fetch_page (env_plp env) 0) = Inr d0 \<and>
    read_totals (env_int env) d0 = Inr (now, tp) \<and>
    valid_order (length (remaining_pages now tp)) (env_page_order env)"
  let ?plp = "env_plp env"
  let ?futs = "map snd (map (page_worker ?plp) (remaining_pages now tp))"
  let ?prods = "products d0 @ concat (as_completed (env_page_order env) ?futs)"
  have fetch: "fetch env =
       ([HttpGetPlp 0], map fst (map (page_worker ?plp) (remaining_pages now tp)),
        Inr (?prods, now))"
    using a by (simp add: fetch_ok)
  have pw: "\<And>pg. snd (page_worker ?plp pg) =
      (case snd (plp_fetch_page ?plp pg) of Inl e \<Rightarrow> [] | Inr d \<Rightarrow> products d)"
    by (simp add: page_worker_def split: prod.splits sum.splits)
  have "mset (as_completed (env_page_order env) ?futs) = mset ?futs"
    using a by (simp add: as_completed_mset)
  then have "mset (concat (as_completed (env_page_order env) ?futs)) = mset (concat ?futs)"
    by (metis mset_concat sum_mset_sum_list mset_map)
  also have "\<dots> = (\<Sum>pg\<leftarrow>remaining_pages now tp. mset (snd (page_worker ?plp pg)))"
    by (simp add: mset_concat comp_def)
  finally have m: "mset ?prods = mset (products d0) +
           (\<Sum>pg\<leftarrow>remaining_pages now tp.
              mset (case snd (plp_fetch_page ?plp pg) of Inl e \<Rightarrow> [] | Inr d \<Rightarrow> products d))"
    by (simp add: pw)
  have "take 2 (trace (poll_cycle env cache)) =
           [HttpGetPlp 0, Log (LPoll now (last_total_results cache) (length ?prods))]"
    using fetch by (simp add: poll_cycle_def Let_def db_get_last_total_results_def)
  with fetch m show "\<exists>prods.
         snd (snd (fetch env)) = Inr (prods, now) \<and>
         mset prods = mset (products d0) +
           (\<Sum>pg\<leftarrow>remaining_pages now tp.
              mset (case snd (plp_fetch_page (env_plp env) pg) of
                      Inl e \<Rightarrow> [] | Inr d \<Rightarrow> products d)) \<and>
         take 2 (trace (poll_cycle env cache)) =
           [HttpGetPlp 0, Log (LPoll now (last_total_results cache) (length prods))]"
    by (intro exI [of _ ?prods]) simp
qed

theorem first_page_failure_atomicity_witness:
  "env_plp refused_env 0 = PlpReply 403 None \<and>
   snd (snd (fetch refused_env)) = Inl (PyException ''403 on PLP'') \<and>
   poll_cycle refused_env idle_db =
     \<lparr>db_cache = idle_db, trace = [HttpGetPlp 0, Log LMainPollLoopError],
      page_workers = [], svc_workers = [], checks = [],
      failure = Some (PyException ''403 on PLP'')\<rparr> \<and>
   snd (plp_fetch_page (env_plp null_total_env) 0) =
     Inr \<lparr>products = [item ''C''], pagination = JObj [(''totalResults'', JNull)]\<rparr> \<and>
   read_totals (env_int null_total_env)
     \<lparr>products = [item ''C''], pagination = JObj [(''totalResults'', JNull)]\<rparr>
     = Inl TypeError \<and>
   snd (snd (fetch null_total_env)) = Inl TypeError \<and>
   db_cache (poll_cycle null_total_env idle_db) = idle_db \<and>
   snd (plp_fetch_page (env_plp paged_env) 0) = Inr paged_first \<and>
   read_totals (env_int paged_env) paged_first = Inr (3, 2) \<and>
   valid_order (length (remaining_pages 3 2)) (env_page_order paged_env) \<and>
   snd (plp_fetch_page (env_plp paged_env) 1) = Inl (PyException ''403 on PLP'') \<and>
   snd (snd (fetch paged_env)) = Inr ([item ''P0'', item ''P2''], 3) \<and>
   take 2 (trace (poll_cycle paged_env idle_db)) = [HttpGetPlp 0, Log (LPoll 3 5 2)]"
proof -
  let ?dn = "\<lparr>products = [item ''C''], pagination = JObj [(''totalResults'', JNull)]\<rparr>"
  have r0: "env_plp refused_env 0 = PlpReply 403 None"
    by (simp add: refused_env_def)
  have r: "snd (snd (fetch refused_env)) = Inl (PyException ''403 on PLP'')"
    by code_simp
  have n0: "snd (plp_fetch_page (env_plp null_total_env) 0) = Inr ?dn"
    by (simp add: null_total_env_def plp_fetch_page_def)
  have n1: "read_totals (env_int null_total_env) ?dn = Inl TypeError"
    by (simp add: null_total_env_def read_totals_def dict_get_def)
  have p0: "snd (plp_fetch_page (env_plp paged_env) 0) = Inr paged_first"
    by (simp add: paged_env_def paged_plp_def plp_fetch_page_def)
  have p1: "snd (plp_fetch_page (env_plp paged_env) 1) = Inl (PyException ''403 on PLP'')"
    by (simp add: paged_env_def paged_plp_def plp_fetch_page_def)
  have pt: "read_totals (env_int paged_env) paged_first = Inr (3, 2)"
    by (simp add: paged_env_def paged_first_def read_totals_def dict_get_def)
  have vo: "valid_order (length (remaining_pages 3 2)) (env_page_order paged_env)"
    by code_simp
  have f: "snd (snd (fetch paged_env)) = Inr ([item ''P0'', item ''P2''], 3)"
    by code_simp
  have t: "take 2 (trace (poll_cycle paged_env idle_db)) = [HttpGetPlp 0, Log (LPoll 3 5 2)]"
    by code_simp
  from first_page_failure_atomicity [of refused_env "PyException ''403 on PLP''" idle_db] r
  have a: "poll_cycle refused_env idle_db =
     \<lparr>db_cache = idle_db, trace = [HttpGetPlp 0, Log LMainPollLoopError],
      page_workers = [], svc_workers = [], checks = [],
      failure = Some (PyException ''403 on PLP'')\<rparr>"
    by blast
  from first_page_failure_atomicity [of null_total_env TypeError idle_db ?dn] n0 n1
  have b: "snd (snd (fetch null_total_env)) = Inl TypeError"
    by blast
  with first_page_failure_atomicity [of null_total_env TypeError idle_db]
  have c: "db_cache (poll_cycle null_total_env idle_db) = idle_db"
    by simp
  from first_page_failure_atomicity [of paged_env _ idle_db paged_first 3 2] p0 pt vo
  have "\<exists>prods. snd (snd (fetch paged_env)) = Inr (prods, 3)"
    by blast
  with r0 r a n0 n1 b c p0 p1 pt vo f t show ?thesis by simp
qed

text \<open>
  Claim C9 (deterministic serialization). The list that \<open>db_replace_prev_deliverable_set\<close>
  stores is sorted, has no duplicates and holds the set it was given. The list that a
  handler stores when it replaces the snapshot is sorted and has no duplicates, and the
  database that the handler then leaves is the same for any two completion orders of
  the checks.
\<close>

theorem snapshot_serialization_deterministic:
  assumes "valid_order (length prods) order1" and "valid_order (length prods) order2"
    and "now \<noteq> last_total_results cache"
    and "failure (handle_wave loads svc order1 cache prods now prev) = None"
    and "failure (handle_wave loads svc order2 cache prods now prev) = None"
  shows "sorted (prev_deliverable (db_replace_prev_deliverable_set d (set xs))) \<and>
         distinct (prev_deliverable (db_replace_prev_deliverable_set d (set xs))) \<and>
         set (prev_deliverable (db_replace_prev_deliverable_set d (set xs))) = set xs \<and>
         sorted (prev_deliverable (db_cache (handle_wave loads svc order1 cache prods now prev))) \<and>
         distinct (prev_deliverable (db_cache (handle_wave loads svc order1 cache prods now prev))) \<and>
         db_cache (handle_wave loads svc order1 cache prods now prev)
           = db_cache (handle_wave loads svc order2 cache prods now prev) \<and>
         sorted (prev_deliverable (db_cache (handle_no_wave loads svc order1 cache prods now))) \<and>
         distinct (prev_deliverable (db_cache (handle_no_wave loads svc order1 cache prods now))) \<and>
         db_cache (handle_no_wave loads svc order1 cache prods now)
           = db_cache (handle_no_wave loads svc order2 cache prods now)"
proof -
  let ?d = "\<lparr>last_total_results = now, prev_deliverable =
      sorted_list_of_set (resolved_available (map snd (submit_all loads svc prods)))\<rparr>"
  have r: "sorted (prev_deliverable (db_replace_prev_deliverable_set d (set xs)))"
    "distinct (prev_deliverable (db_replace_prev_deliverable_set d (set xs)))"
    "set (prev_deliverable (db_replace_prev_deliverable_set d (set xs))) = set xs"
    by (simp_all add: db_replace_prev_deliverable_set_def)
  have w1: "db_cache (handle_wave loads svc order1 cache prods now prev) = ?d"
    using handle_wave_outcome [OF assms(1), of loads svc cache now prev] assms(4) by auto
  have w2: "db_cache (handle_wave loads svc order2 cache prods now prev) = ?d"
    using handle_wave_outcome [OF assms(2), of loads svc cache now prev] assms(5) by auto
  have n1: "db_cache (handle_no_wave loads svc order1 cache prods now) = ?d"
    using handle_no_wave_outcome [OF assms(1,3), of loads svc] by auto
  have n2: "db_cache (handle_no_wave loads svc order2 cache prods now) = ?d"
    using handle_no_wave_outcome [OF assms(2,3), of loads svc] by auto
  show ?thesis
    by (simp add: r w1 w2 n1 n2)
qed

theorem snapshot_serialization_deterministic_witness:
  "valid_order (length wave_products) [2, 0, 4, 1, 3] \<and>
   valid_order (length wave_products) [0, 1, 2, 3, 4] \<and>
   5 \<noteq> last_total_results wave_db \<and>
   failure (handle_wave no_loads wave_svc [2, 0, 4, 1, 3] wave_db wave_products 5 3) = None \<and>
   failure (handle_wave no_loads wave_svc [0, 1, 2, 3, 4] wave_db wave_products 5 3) = None \<and>
   prev_deliverable (db_replace_prev_deliverable_set wave_db (set [''C'', ''B'', ''C'']))
     = [''B'', ''C''] \<and>
   prev_deliverable (db_cache (handle_wave no_loads wave_svc [2, 0, 4, 1, 3] wave_db wave_products 5 3))
     = [''B'', ''C''] \<and>
   db_cache (handle_wave no_loads wave_svc [2, 0, 4, 1, 3] wave_db wave_products 5 3)
     = db_cache (handle_wave no_loads wave_svc [0, 1, 2, 3, 4] wave_db wave_products 5 3) \<and>
   db_cache (handle_no_wave no_loads wave_svc [2, 0, 4, 1, 3] wave_db wave_products 5)
     = db_cache (handle_no_wave no_loads wave_svc [0, 1, 2, 3, 4] wave_db wave_products 5)"
proof -
  have ne: "5 \<noteq> last_total_results wave_db"
    by (simp add: wave_db_def)
  have f1: "failure (handle_wave no_loads wave_svc [2, 0, 4, 1, 3] wave_db wave_products 5 3)
              = None"
    by code_simp
  have f2: "failure (handle_wave no_loads wave_svc [0, 1, 2, 3, 4] wave_db wave_products 5 3)
              = None"
    by code_simp
  have l: "prev_deliverable (db_replace_prev_deliverable_set wave_db (set [''C'', ''B'', ''C'']))
     = [''B'', ''C'']"
    by code_simp
  have "prev_deliverable
          (db_cache (handle_wave no_loads wave_svc [2, 0, 4, 1, 3] wave_db wave_products 5 3))
        = [''B'', ''C'']"
    by code_simp
  with snapshot_serialization_deterministic [OF valid_order_wave_1 valid_order_wave_2 ne f1 f2]
    valid_order_wave_1 valid_order_wave_2 ne f1 f2 l
  show ?thesis by simp
qed

text \<open>
  Claim C10 (missing identifier). For a product whose code is missing or empty the
  check returns the result with both fields None and makes no request, each loop leaves
  its state as it was, no alert of a cycle carries such a code, and the empty code is
  not added to the snapshot: it is in the stored list after a cycle only if the cycle
  left the stored list as it was.
\<close>

theorem missing_identifier_excluded:
  assumes "code p = None \<or> code p = Some []" and "well_scheduled env"
  shows "check_serviceability loads reply (code p) pincode = ([], Inr unknown_svc) \<and>
         wave_step prev (cur, ann, tr) (snd (svc_worker loads reply p)) = ((cur, ann, tr), None) \<and>
         no_wave_step (cur, tr) (snd (svc_worker loads reply p)) = (cur, tr) \<and>
         code p \<notin> set (alert_ids (trace (poll_cycle env cache))) \<and>
         ([] \<notin> set (prev_deliverable (db_cache (poll_cycle env cache))) \<or>
          prev_deliverable (db_cache (poll_cycle env cache)) = prev_deliverable cache)"
proof -
  have chk: "check_serviceability loads reply (code p) pincode = ([], Inr unknown_svc)"
    for pincode
    using assms(1) by (auto simp: check_serviceability_def)
  have w: "svc_worker loads reply p = ([], Inr (p, code p, unknown_svc))"
    by (simp add: svc_worker_def chk)
  have steps: "wave_step prev (cur, ann, tr) (snd (svc_worker loads reply p))
                 = ((cur, ann, tr), None)"
    "no_wave_step (cur, tr) (snd (svc_worker loads reply p)) = (cur, tr)"
    using assms(1) by (auto simp: w)
  have cyc: "code p \<notin> set (alert_ids (trace (poll_cycle env cache))) \<and>
         ([] \<notin> set (prev_deliverable (db_cache (poll_cycle env cache))) \<or>
          prev_deliverable (db_cache (poll_cycle env cache)) = prev_deliverable cache)"
    using assms(2)
  proof (cases rule: poll_cycle_cases [where cache = cache])
    case (failed e)
    then show ?thesis by simp
  next
    case (idle pw prods now)
    then show ?thesis by simp
  next
    case (wave pw prods now tr2 fl)
    with assms(1) submit_all_nonempty [of "env_loads env" "env_svc env" prods]
    show ?thesis
      by (cases fl) (auto simp: alert_ids_append finite_resolved_available wave_post_def)
  next
    case (shrink pw prods now tr2)
    with submit_all_nonempty [of "env_loads env" "env_svc env" prods]
    show ?thesis by (simp add: alert_ids_append finite_resolved_available)
  qed
  from chk steps cyc show ?thesis by simp
qed

theorem missing_identifier_excluded_witness:
  "(code \<lparr>code = None, attrs = [(''name'', JStr ''E'')]\<rparr> = None \<or>
    code \<lparr>code = None, attrs = [(''name'', JStr ''E'')]\<rparr> = Some []) \<and>
   well_scheduled wave_env \<and>
   \<lparr>code = None, attrs = [(''name'', JStr ''E'')]\<rparr> \<in> set wave_products \<and>
   check_serviceability no_loads ConnError
     (code \<lparr>code = None, attrs = [(''name'', JStr ''E'')]\<rparr>) REAL_PIN
     = ([], Inr unknown_svc) \<and>
   code \<lparr>code = None, attrs = [(''name'', JStr ''E'')]\<rparr>
     \<notin> set (alert_ids (trace (poll_cycle wave_env wave_db))) \<and>
   [] \<notin> set (prev_deliverable (db_cache (poll_cycle wave_env wave_db)))"
proof -
  let ?p = "\<lparr>code = None, attrs = [(''name'', JStr ''E'')]\<rparr>"
  have h: "code ?p = None \<or> code ?p = Some []"
    by simp
  have m: "?p \<in> set wave_products"
    by (simp add: wave_products_def)
  have d: "[] \<notin> set (prev_deliverable (db_cache (poll_cycle wave_env wave_db)))"
    by code_simp
  from missing_identifier_excluded [OF h well_scheduled_wave_env,
      of no_loads ConnError REAL_PIN "{}" "{}" "{}" "[]" wave_db]
    h m d well_scheduled_wave_env
  show ?thesis by simp
qed

end
